theory Spec2Isabelle
  imports Main "HOL-Library.Word"
begin

section \<open>The transaction heartbeater (package kv, type txnHeartbeater)\<close>

text \<open>
  The interceptor sits between the transaction coordinator and the next sender of the
  stack. Its mutable fields are guarded by the coordinator's mutex, so every method is
  modelled as a sequential step on the state. The two senders, the clock, the stopper,
  the settings and the coordinator's callback are collaborators: their answers are
  inputs of the model, and every call made to them is recorded in a trace.
\<close>

subsection \<open>Messages of package roachpb used by the interceptor\<close>

text \<open>A key is a byte slice; \<open>None\<close> is the nil slice.\<close>

type_synonym roachpb_Key = "8 word list option"

definition len_Key :: "roachpb_Key \<Rightarrow> nat" where
  "len_Key k = (case k of None \<Rightarrow> 0 | Some bs \<Rightarrow> length bs)"

type_synonym Timestamp = nat

datatype TransactionStatus = PENDING | COMMITTED | ABORTED

record Transaction =
  Key :: roachpb_Key
  Status :: TransactionStatus
  Writing :: bool

text \<open>
  The request union. The interceptor inspects three request types by name; every other
  request type (Get, Put, Scan, ...) is an \<open>OtherRequest\<close> tagged with its method.
\<close>

datatype Request =
    BeginTransactionRequest roachpb_Key
  | EndTransactionRequest roachpb_Key bool bool
  | HeartbeatTxnRequest roachpb_Key Timestamp
  | OtherRequest string roachpb_Key

text \<open>\<open>Header().Key\<close> of a request.\<close>

fun Header_Key :: "Request \<Rightarrow> roachpb_Key" where
  "Header_Key (BeginTransactionRequest k) = k"
| "Header_Key (EndTransactionRequest k commit poison) = k"
| "Header_Key (HeartbeatTxnRequest k now) = k"
| "Header_Key (OtherRequest m k) = k"

text \<open>The type assertion \<open>args.(*roachpb.EndTransactionRequest)\<close>.\<close>

fun is_EndTransactionRequest :: "Request \<Rightarrow> bool" where
  "is_EndTransactionRequest (EndTransactionRequest k commit poison) = True"
| "is_EndTransactionRequest r = False"

record BatchRequest =
  Txn :: "Transaction option"
  Requests :: "Request list"

datatype Response =
    HeartbeatTxnResponse "Transaction option"
  | BeginTransactionResponse
  | OtherResponse string

text \<open>\<open>Responses\<close> is a slice that the code compares with nil: \<open>None\<close> is nil.\<close>

record BatchResponse =
  Responses :: "Response list option"

datatype TransactionStatusError_Reason = REASON_UNKNOWN | REASON_TXN_NOT_FOUND

datatype ErrorDetail =
    TransactionStatusError TransactionStatusError_Reason
  | TransactionAbortedError
  | OtherErrorDetail string

text \<open>
  \<open>roachpb.Error\<close>: \<open>detail\<close> is what \<open>GetDetail()\<close> returns, \<open>Index\<close> the
  optional position (an int32) and \<open>UnexposedTxn\<close> what \<open>GetTxn()\<close> returns.
\<close>

record Error =
  message :: string
  detail :: "ErrorDetail option"
  Index :: "32 word option"
  UnexposedTxn :: "Transaction option"

text \<open>
  Modelled from the spec: \<open>roachpb.NewErrorf\<close> and \<open>roachpb.NewError\<close> (package roachpb
  is not among the sources) build an error that carries the message only.
\<close>

definition NewErrorf :: "string \<Rightarrow> Error" where
  "NewErrorf msg = \<lparr>message = msg, detail = None, Index = None, UnexposedTxn = None\<rparr>"

definition NewError :: "string \<Rightarrow> Error" where
  "NewError err = \<lparr>message = err, detail = None, Index = None, UnexposedTxn = None\<rparr>"

text \<open>
  Modelled from the spec: \<open>Transaction.Clone\<close> (not among the sources) is a deep copy;
  on immutable values it is the identity.
\<close>

definition Clone :: "Transaction \<Rightarrow> Transaction" where
  "Clone t = t"

text \<open>
  Modelled from the spec: \<open>BatchRequest.IsSingleEndTransactionRequest\<close> (not among the
  sources): the batch consists solely of a single end-transaction request.
\<close>

definition IsSingleEndTransactionRequest :: "BatchRequest \<Rightarrow> bool" where
  "IsSingleEndTransactionRequest ba =
     (case Requests ba of [r] \<Rightarrow> is_EndTransactionRequest r | _ \<Rightarrow> False)"

text \<open>
  Modelled from the spec: \<open>BatchRequest.GetArg(roachpb.EndTransaction)\<close> (not among the
  sources) reports whether the batch contains the terminal end-transaction request,
  that is, whether its last request is one.
\<close>

definition GetArg_EndTransaction :: "BatchRequest \<Rightarrow> bool" where
  "GetArg_EndTransaction ba =
     (case rev (Requests ba) of [] \<Rightarrow> False | r # _ \<Rightarrow> is_EndTransactionRequest r)"

subsection \<open>Collaborators and state\<close>

datatype event =
    SentWrapped BatchRequest
  | SentGatekeeper BatchRequest
  | AsyncAbortCallback

datatype task =
    HeartbeatLoopTask
  | AbortTxnTask BatchRequest

text \<open>
  The collaborators whose code is outside the interceptor. A sender answers a batch
  with a response and an error, either of which may be nil; its answer may depend on
  everything that happened before (the trace). \<open>IsTransactionWrite\<close> is
  \<open>roachpb.IsTransactionWrite\<close> and \<open>Update\<close> is \<open>Transaction.Update\<close>, whose
  argument may be nil.
\<close>

record env =
  wrapped :: "event list \<Rightarrow> BatchRequest \<Rightarrow> BatchResponse option \<times> Error option"
  gatekeeper :: "event list \<Rightarrow> BatchRequest \<Rightarrow> BatchResponse option \<times> Error option"
  IsTransactionWrite :: "Request \<Rightarrow> bool"
  Update :: "Transaction \<Rightarrow> Transaction option \<Rightarrow> Transaction"

text \<open>
  The struct. \<open>lazyTxnRecordActive\<close> is the value of
  \<open>st.Version.IsActive(cluster.VersionLazyTxnRecord)\<close>. \<open>txnEnd\<close> holds the identity of
  the channel, \<open>None\<close> when the heartbeat loop is not running.
\<close>

record txnHeartbeater =
  eagerRecord :: bool
  lazyTxnRecordActive :: bool
  txnEnd :: "nat option"
  txn :: Transaction
  finalErr :: "Error option"
  needBeginTxn :: bool

text \<open>
  The interceptor together with what it acts on: the stopper (quiescing or not, and the
  tasks it has accepted), the clock reading, the channels made and closed so far, and
  the trace of calls made to the senders and to the coordinator's callback.
\<close>

record system = txnHeartbeater +
  stopper_quiescing :: bool
  stopper_tasks :: "task list"
  clock_Now :: Timestamp
  chans_made :: nat
  chans_closed :: "nat list"
  trace :: "event list"

text \<open>
  A fatal log or a runtime panic ends the call where it stands. The call then returns
  no value, and the state is the one that the assignments made before it have left.
\<close>

datatype crash = Fatal string | Panic string

text \<open>
  Modelled from the spec: \<open>stop.Stopper.RunAsyncTask\<close> (not among the sources) fails only
  when the stopper is shutting down, and then does not run the task; otherwise the task
  is handed to a new goroutine.
\<close>

definition RunAsyncTask :: "task \<Rightarrow> system \<Rightarrow> string option \<times> system" where
  "RunAsyncTask t s =
     (if stopper_quiescing s then (Some ''node unavailable; try another peer'', s)
      else (None, s\<lparr>stopper_tasks := stopper_tasks s @ [t]\<rparr>))"

subsection \<open>firstWriteIndex\<close>

text \<open>
  The loop over \<open>ba.Requests\<close>: \<open>n\<close> is \<open>len(ba.Requests)\<close>, \<open>i\<close> the index of the
  request at the head of the remaining list.
\<close>

fun firstWriteIndex_loop ::
  "(Request \<Rightarrow> bool) \<Rightarrow> nat \<Rightarrow> nat \<Rightarrow> Request list \<Rightarrow> Error + int" where
  "firstWriteIndex_loop isWrite n i [] = Inr (- 1)"
| "firstWriteIndex_loop isWrite n i (args # rest) =
     (if int i < int n - 1 \<and> is_EndTransactionRequest args
      then Inl (NewErrorf ''EndTransaction sent as non-terminal call'')
      else if isWrite args then Inr (int i)
      else firstWriteIndex_loop isWrite n (Suc i) rest)"

definition firstWriteIndex :: "(Request \<Rightarrow> bool) \<Rightarrow> BatchRequest \<Rightarrow> Error + int" where
  "firstWriteIndex isWrite ba =
     firstWriteIndex_loop isWrite (length (Requests ba)) 0 (Requests ba)"

subsection \<open>startHeartbeatLoopLocked, epochBumpedLocked, closeLocked\<close>

definition startHeartbeatLoopLocked :: "system \<Rightarrow> (crash + string option) \<times> system" where
  "startHeartbeatLoopLocked s =
     (if txnEnd s \<noteq> None
      then (Inl (Fatal ''attempting to start a second heartbeat loop ''), s)
      else
        let (err, s') = RunAsyncTask HeartbeatLoopTask
                          (s\<lparr>txnEnd := Some (chans_made s), chans_made := Suc (chans_made s)\<rparr>)
        in (Inr err, s'))"

definition epochBumpedLocked :: "system \<Rightarrow> system" where
  "epochBumpedLocked s = s\<lparr>needBeginTxn := True\<rparr>"

definition closeLocked :: "system \<Rightarrow> system" where
  "closeLocked s =
     (case txnEnd s of
        None \<Rightarrow> s
      | Some c \<Rightarrow> s\<lparr>chans_closed := c # chans_closed s, txnEnd := None\<rparr>)"

subsection \<open>SendLocked\<close>

text \<open>The splice of lines 201 to 205: a begin-transaction request before position \<open>i\<close>.\<close>

definition injectBeginTxn :: "nat \<Rightarrow> roachpb_Key \<Rightarrow> Request list \<Rightarrow> Request list" where
  "injectBeginTxn i k oldRequests =
     take i oldRequests @ [BeginTransactionRequest k] @ drop i oldRequests"

text \<open>
  Line 230: \<open>append(br.Responses[:i], br.Responses[i+1:]...)\<close>. The slice expression
  panics when the response has no slot \<open>i\<close>.
\<close>

definition stripBeginTxnResponse ::
  "nat \<Rightarrow> BatchResponse option \<Rightarrow> crash + BatchResponse option" where
  "stripBeginTxnResponse i br =
     (case br of
        None \<Rightarrow> Inr None
      | Some b \<Rightarrow>
          (case Responses b of
             None \<Rightarrow> Inr (Some b)
           | Some rs \<Rightarrow>
               if Suc i \<le> length rs
               then Inr (Some (b\<lparr>Responses := Some (take i rs @ drop (Suc i) rs)\<rparr>))
               else Inl (Panic ''slice bounds out of range'')))"

text \<open>
  Lines 233 to 242. \<open>int32(firstWriteIdx)\<close> is the conversion \<open>word_of_int\<close>; the
  comparison is signed.
\<close>

definition adjustErrorIndex :: "int \<Rightarrow> Error option \<Rightarrow> Error option" where
  "adjustErrorIndex firstWriteIdx pErr =
     (case pErr of
        None \<Rightarrow> None
      | Some e \<Rightarrow>
          (case Index e of
             None \<Rightarrow> Some e
           | Some idx \<Rightarrow>
               if idx = word_of_int firstWriteIdx then Some (e\<lparr>Index := None\<rparr>)
               else if word_of_int firstWriteIdx <s idx then Some (e\<lparr>Index := Some (idx - 1)\<rparr>)
               else Some e))"

text \<open>Lines 224 to 245: forward the batch and undo the injection in the answer.\<close>

definition forwardLocked ::
  "env \<Rightarrow> bool \<Rightarrow> int \<Rightarrow> BatchRequest \<Rightarrow> system \<Rightarrow>
     (crash + (BatchResponse option \<times> Error option)) \<times> system" where
  "forwardLocked e addedBeginTxn firstWriteIdx ba s =
     (let (br, pErr) = wrapped e (trace s) ba;
          s' = s\<lparr>trace := trace s @ [SentWrapped ba]\<rparr>
      in if addedBeginTxn
         then (case stripBeginTxnResponse (nat firstWriteIdx) br of
                 Inl c \<Rightarrow> (Inl c, s')
               | Inr br' \<Rightarrow> (Inr (br', adjustErrorIndex firstWriteIdx pErr), s'))
         else (Inr (br, pErr), s'))"

text \<open>
  Lines 170 to 222, entered when the batch writes and \<open>needBeginTxn\<close> is set. The
  batch's transaction is a pointer that the code dereferences without a check.
\<close>

definition beginTxnLocked ::
  "env \<Rightarrow> int \<Rightarrow> bool \<Rightarrow> BatchRequest \<Rightarrow> system \<Rightarrow>
     (crash + (BatchResponse option \<times> Error option)) \<times> system" where
  "beginTxnLocked e firstWriteIdx haveEndTxn ba s =
     (let s1 = s\<lparr>needBeginTxn := False, txn := (txn s)\<lparr>Writing := True\<rparr>\<rparr>
      in case Txn ba of
           None \<Rightarrow> (Inl (Panic ''nil pointer dereference''), s1)
         | Some baTxn \<Rightarrow>
             let baTxn1 = baTxn\<lparr>Writing := True\<rparr>;
                 anchor = Header_Key (Requests ba ! nat firstWriteIdx);
                 setKey = (len_Key (Key (txn s1)) = 0);
                 s2 = (if setKey then s1\<lparr>txn := (txn s1)\<lparr>Key := anchor\<rparr>\<rparr> else s1);
                 baTxn2 = (if setKey then baTxn1\<lparr>Key := anchor\<rparr> else baTxn1);
                 addedBeginTxn = (eagerRecord s2 \<or> \<not> lazyTxnRecordActive s2);
                 ba2 = ba\<lparr>Txn := Some baTxn2,
                          Requests := (if addedBeginTxn
                                       then injectBeginTxn (nat firstWriteIdx) (Key (txn s2))
                                              (Requests ba)
                                       else Requests ba)\<rparr>
             in if txnEnd s2 = None \<and> \<not> haveEndTxn
                then (case startHeartbeatLoopLocked s2 of
                        (Inl c, s3) \<Rightarrow> (Inl c, s3)
                      | (Inr (Some err), s3) \<Rightarrow>
                          (Inr (None, Some (NewError err)),
                           s3\<lparr>finalErr := Some (NewError err)\<rparr>)
                      | (Inr None, s3) \<Rightarrow> forwardLocked e addedBeginTxn firstWriteIdx ba2 s3)
                else forwardLocked e addedBeginTxn firstWriteIdx ba2 s2)"

text \<open>Lines 154 and 155.\<close>

definition singleRollback :: "BatchRequest \<Rightarrow> bool" where
  "singleRollback ba =
     (IsSingleEndTransactionRequest ba \<and>
      (case Requests ba of
         EndTransactionRequest k commit poison # _ \<Rightarrow> \<not> commit
       | _ \<Rightarrow> False))"

definition SendLocked ::
  "env \<Rightarrow> BatchRequest \<Rightarrow> system \<Rightarrow>
     (crash + (BatchResponse option \<times> Error option)) \<times> system" where
  "SendLocked e ba s =
     (if finalErr s \<noteq> None \<and> \<not> singleRollback ba then (Inr (None, finalErr s), s)
      else
        (case firstWriteIndex (IsTransactionWrite e) ba of
           Inl pErr \<Rightarrow> (Inr (None, Some pErr), s)
         | Inr firstWriteIdx \<Rightarrow>
             let haveTxnWrite = (firstWriteIdx \<noteq> - 1);
                 haveEndTxn = GetArg_EndTransaction ba;
                 needBegin = (haveTxnWrite \<and> needBeginTxn s)
             in if needBegin then beginTxnLocked e firstWriteIdx haveEndTxn ba s
                else forwardLocked e False firstWriteIdx ba s))"

subsection \<open>heartbeat and abortTxnAsyncLocked\<close>

text \<open>The batch built by \<open>abortTxnAsyncLocked\<close>: the request header is left empty.\<close>

definition abortBatch :: "Transaction \<Rightarrow> BatchRequest" where
  "abortBatch t = \<lparr>Txn = Some t, Requests = [EndTransactionRequest None False True]\<rparr>"

text \<open>An error of \<open>RunAsyncTask\<close> is logged as a warning and dropped.\<close>

definition abortTxnAsyncLocked :: "system \<Rightarrow> crash option \<times> system" where
  "abortTxnAsyncLocked s =
     (if Status (txn s) \<noteq> ABORTED
      then (Some (Fatal ''abortTxnAsyncLocked called for non-aborted txn''), s)
      else
        let s1 = s\<lparr>trace := trace s @ [AsyncAbortCallback]\<rparr>;
            ba = abortBatch (Clone (txn s1));
            (err, s2) = RunAsyncTask (AbortTxnTask ba) s1
        in (None, s2))"

text \<open>The batch built by \<open>heartbeat\<close>.\<close>

definition heartbeatBatch :: "Transaction \<Rightarrow> Timestamp \<Rightarrow> BatchRequest" where
  "heartbeatBatch t now = \<lparr>Txn = Some t, Requests = [HeartbeatTxnRequest (Key t) now]\<rparr>"

text \<open>Lines 442 to 450: merge the answer's transaction into the local one.\<close>

definition heartbeatUpdate ::
  "env \<Rightarrow> Transaction option \<Rightarrow> system \<Rightarrow> (crash + bool) \<times> system" where
  "heartbeatUpdate e respTxn s =
     (let s1 = s\<lparr>txn := Update e (txn s) respTxn\<rparr>
      in if Status (txn s1) \<noteq> PENDING
         then (if Status (txn s1) = ABORTED
               then (case abortTxnAsyncLocked s1 of
                       (Some c, s2) \<Rightarrow> (Inl c, s2)
                     | (None, s2) \<Rightarrow> (Inr False, s2))
               else (Inr False, s1))
         else (Inr True, s1))"

definition heartbeat :: "env \<Rightarrow> system \<Rightarrow> (crash + bool) \<times> system" where
  "heartbeat e s =
     (if Status (txn s) \<noteq> PENDING
      then (if txnEnd s \<noteq> None
            then (Inl (Fatal ''txn committed or aborted but heartbeat loop hasn't been signaled to stop''), s)
            else (Inr False, s))
      else
        let t = Clone (txn s)
        in if Key t = None
           then (Inl (Fatal ''attempting to heartbeat txn without anchor key''), s)
           else
             let ba = heartbeatBatch t (clock_Now s);
                 (br, pErr) = gatekeeper e (trace s) ba;
                 s1 = s\<lparr>trace := trace s @ [SentGatekeeper ba]\<rparr>
             in (case pErr of
                   Some err \<Rightarrow>
                     if detail err = Some (TransactionStatusError REASON_TXN_NOT_FOUND)
                     then (Inr True, s1)
                     else if detail err = Some TransactionAbortedError
                     then (case abortTxnAsyncLocked (s1\<lparr>txn := (txn s1)\<lparr>Status := ABORTED\<rparr>\<rparr>) of
                             (Some c, s2) \<Rightarrow> (Inl c, s2)
                           | (None, s2) \<Rightarrow> (Inr False, s2))
                     else heartbeatUpdate e (UnexposedTxn err) s1
                 | None \<Rightarrow>
                     (case br of
                        None \<Rightarrow> (Inl (Panic ''nil pointer dereference''), s1)
                      | Some b \<Rightarrow>
                          (case Responses b of
                             Some (HeartbeatTxnResponse respTxn # _) \<Rightarrow> heartbeatUpdate e respTxn s1
                           | Some (_ # _) \<Rightarrow> (Inl (Panic ''interface conversion''), s1)
                           | _ \<Rightarrow> (Inl (Panic ''index out of range''), s1)))))"

text \<open>
  The task scheduled by \<open>abortTxnAsyncLocked\<close>, when the stopper runs it: it sends the
  batch through the wrapped sender and only logs a failure.
\<close>

definition runAbortTxnTask :: "env \<Rightarrow> BatchRequest \<Rightarrow> system \<Rightarrow> system" where
  "runAbortTxnTask e ba s =
     (let (br, pErr) = wrapped e (trace s) ba
      in s\<lparr>trace := trace s @ [SentWrapped ba]\<rparr>)"

subsection \<open>heartbeatLoop\<close>

text \<open>The deferred function of \<open>heartbeatLoop\<close>, run with the loop's local \<open>finalErr\<close>.\<close>

definition heartbeatLoop_deferred :: "Error option \<Rightarrow> system \<Rightarrow> system" where
  "heartbeatLoop_deferred localErr s =
     (let s1 = (if localErr \<noteq> None then s\<lparr>finalErr := localErr\<rparr> else s)
      in if txnEnd s1 \<noteq> None then s1\<lparr>txnEnd := None\<rparr> else s1)"

text \<open>
  Which case of the \<open>select\<close> fires is decided outside the interceptor: the schedule is
  an input. When the schedule is used up the loop is blocked in the \<open>select\<close>.
\<close>

datatype select_case = TickChan | Closer | ShouldQuiesce

datatype loop_state = Blocked | Returned

fun heartbeatLoop_select ::
  "env \<Rightarrow> select_case list \<Rightarrow> system \<Rightarrow> (crash + loop_state) \<times> system" where
  "heartbeatLoop_select e [] s = (Inr Blocked, s)"
| "heartbeatLoop_select e (TickChan # cs) s =
     (case heartbeat e s of
        (Inl c, s1) \<Rightarrow> (Inl c, s1)
      | (Inr continue, s1) \<Rightarrow>
          if \<not> continue
          then (Inr Returned,
                heartbeatLoop_deferred (Some (NewErrorf ''heartbeat failed fatally'')) s1)
          else heartbeatLoop_select e cs s1)"
| "heartbeatLoop_select e (Closer # cs) s =
     (Inr Returned,
      heartbeatLoop_deferred (Some (NewErrorf ''txnHeartbeater already closed'')) s)"
| "heartbeatLoop_select e (ShouldQuiesce # cs) s =
     (Inr Returned, heartbeatLoop_deferred (Some (NewErrorf ''node already quiescing'')) s)"

definition heartbeatLoop ::
  "env \<Rightarrow> select_case list \<Rightarrow> system \<Rightarrow> (crash + loop_state) \<times> system" where
  "heartbeatLoop e cs s =
     (if txnEnd s = None then (Inr Returned, heartbeatLoop_deferred None s)
      else heartbeatLoop_select e cs s)"

subsection \<open>Histories of calls\<close>

text \<open>
  The methods run one at a time under the coordinator's mutex. A history is the list of
  the calls made, in order; a crash ends it.
\<close>

datatype call =
    CallSendLocked BatchRequest
  | CallHeartbeat
  | CallCloseLocked
  | CallEpochBumpedLocked

fun run_calls :: "env \<Rightarrow> call list \<Rightarrow> system \<Rightarrow> crash option \<times> system" where
  "run_calls e [] s = (None, s)"
| "run_calls e (CallSendLocked ba # cs) s =
     (case SendLocked e ba s of
        (Inl c, s') \<Rightarrow> (Some c, s')
      | (Inr r, s') \<Rightarrow> run_calls e cs s')"
| "run_calls e (CallHeartbeat # cs) s =
     (case heartbeat e s of
        (Inl c, s') \<Rightarrow> (Some c, s')
      | (Inr continue, s') \<Rightarrow> run_calls e cs s')"
| "run_calls e (CallCloseLocked # cs) s = run_calls e cs (closeLocked s)"
| "run_calls e (CallEpochBumpedLocked # cs) s = run_calls e cs (epochBumpedLocked s)"

subsection \<open>A concrete configuration\<close>

text \<open>
  Collaborators and a state on which the properties below are exercised: only Put
  requests write, both senders give a fixed answer, and a non-nil update overwrites the
  status of a pending transaction.
\<close>

definition example_isWrite :: "Request \<Rightarrow> bool" where
  "example_isWrite r = (case r of OtherRequest m k \<Rightarrow> m = ''Put'' | _ \<Rightarrow> False)"

definition example_Update :: "Transaction \<Rightarrow> Transaction option \<Rightarrow> Transaction" where
  "example_Update t u =
     (case u of
        None \<Rightarrow> t
      | Some t' \<Rightarrow> if Status t = PENDING then t\<lparr>Status := Status t'\<rparr> else t)"

definition example_env ::
  "BatchResponse option \<times> Error option \<Rightarrow> BatchResponse option \<times> Error option \<Rightarrow> env" where
  "example_env wrappedAnswer gatekeeperAnswer =
     \<lparr>wrapped = (\<lambda>tr ba. wrappedAnswer),
      gatekeeper = (\<lambda>tr ba. gatekeeperAnswer),
      IsTransactionWrite = example_isWrite,
      Update = example_Update\<rparr>"

text \<open>The state that \<open>init\<close> leaves: no anchor key yet, no loop, no final error.\<close>

definition example_system :: system where
  "example_system =
     \<lparr>eagerRecord = True, lazyTxnRecordActive = True, txnEnd = None,
      txn = \<lparr>Key = None, Status = PENDING, Writing = False\<rparr>,
      finalErr = None, needBeginTxn = True,
      stopper_quiescing = False, stopper_tasks = [], clock_Now = 7,
      chans_made = 0, chans_closed = [], trace = []\<rparr>"

definition example_Put :: "8 word \<Rightarrow> Request" where
  "example_Put k = OtherRequest ''Put'' (Some [k])"

definition example_Get :: "8 word \<Rightarrow> Request" where
  "example_Get k = OtherRequest ''Get'' (Some [k])"

text \<open>
  A state in which the transaction has its anchor key and the heartbeat loop runs, and
  an error with a given detail, as a sender may return it.
\<close>

definition example_running :: system where
  "example_running =
     example_system\<lparr>txn := \<lparr>Key = Some [1], Status = PENDING, Writing = True\<rparr>,
                     needBeginTxn := False, txnEnd := Some 0, chans_made := 1,
                     stopper_tasks := [HeartbeatLoopTask]\<rparr>"

definition example_error :: "ErrorDetail \<Rightarrow> Error" where
  "example_error d = \<lparr>message = ''heartbeat'', detail = Some d, Index = None, UnexposedTxn = None\<rparr>"

section \<open>Properties\<close>

subsection \<open>Auxiliary facts\<close>

text \<open>
  What \<open>firstWriteIndex\<close> returns: the position of the first transactional write when
  no end-transaction request stands before it, an index inside the batch whenever it is
  not \<open>-1\<close> (so that \<open>ba.Requests[firstWriteIdx]\<close> is in range), and the error when
  an end-transaction request that is not the last request comes before any write.
\<close>

lemma singleRollback_iff:
  "singleRollback ba \<longleftrightarrow> (\<exists>k p. Requests ba = [EndTransactionRequest k False p])"
  apply (cases "Requests ba")
   apply (simp add: singleRollback_def IsSingleEndTransactionRequest_def)
  subgoal for r rs
    apply (cases r; cases rs)
    apply (auto simp add: singleRollback_def IsSingleEndTransactionRequest_def)
    done
  done

lemma firstWriteIndex_loop_found:
  assumes "\<forall>r\<in>set pre. \<not> isWrite r \<and> \<not> is_EndTransactionRequest r"
    and "isWrite wr"
    and "is_EndTransactionRequest wr \<longrightarrow> post = []"
    and "n = i + length pre + 1 + length post"
  shows "firstWriteIndex_loop isWrite n i (pre @ wr # post) = Inr (int (i + length pre))"
  using assms
proof (induction pre arbitrary: i)
  case Nil
  then show ?case by (cases post) auto
next
  case (Cons a pre)
  then show ?case by simp
qed

lemma firstWriteIndex_found:
  assumes "Requests ba = pre @ wr # post"
    and "\<forall>r\<in>set pre. \<not> isWrite r \<and> \<not> is_EndTransactionRequest r"
    and "isWrite wr"
    and "is_EndTransactionRequest wr \<longrightarrow> post = []"
  shows "firstWriteIndex isWrite ba = Inr (int (length pre))"
  using firstWriteIndex_loop_found [OF assms(2-4), of "length (Requests ba)" 0] assms(1)
  by (simp add: firstWriteIndex_def)

lemma firstWriteIndex_loop_range:
  "firstWriteIndex_loop isWrite n i rs = Inr j \<Longrightarrow>
     j = - 1 \<or> (int i \<le> j \<and> j < int i + int (length rs) \<and> isWrite (rs ! (nat j - i)))"
proof (induction rs arbitrary: i)
  case Nil
  then show ?case by simp
next
  case (Cons a rs)
  show ?case
  proof (cases "int i < int n - 1 \<and> is_EndTransactionRequest a")
    case True
    with Cons.prems show ?thesis by simp
  next
    case nonterm: False
    show ?thesis
    proof (cases "isWrite a")
      case True
      with nonterm Cons.prems show ?thesis by auto
    next
      case False
      with nonterm Cons.prems have "firstWriteIndex_loop isWrite n (Suc i) rs = Inr j" by auto
      from Cons.IH [OF this] show ?thesis
      proof
        assume "j = - 1"
        then show ?thesis by simp
      next
        assume r: "int (Suc i) \<le> j \<and> j < int (Suc i) + int (length rs)
                    \<and> isWrite (rs ! (nat j - Suc i))"
        then have "nat j - i = Suc (nat j - Suc i)" by linarith
        with r show ?thesis by auto
      qed
    qed
  qed
qed

lemma firstWriteIndex_range:
  "firstWriteIndex isWrite ba = Inr j \<Longrightarrow>
     j = - 1 \<or> (0 \<le> j \<and> nat j < length (Requests ba) \<and> isWrite (Requests ba ! nat j))"
  using firstWriteIndex_loop_range [of isWrite "length (Requests ba)" 0 "Requests ba" j]
  by (auto simp: firstWriteIndex_def)

lemma firstWriteIndex_loop_nonterminal:
  assumes "\<forall>r\<in>set pre. \<not> isWrite r"
    and "is_EndTransactionRequest et"
    and "post \<noteq> []"
    and "n = i + length pre + 1 + length post"
  shows "firstWriteIndex_loop isWrite n i (pre @ et # post) =
           Inl (NewErrorf ''EndTransaction sent as non-terminal call'')"
  using assms
proof (induction pre arbitrary: i)
  case Nil
  then show ?case by (cases post) auto
next
  case (Cons a pre)
  then show ?case by simp
qed


lemma SendLocked_qualifying:
  assumes "finalErr s = None \<or> singleRollback ba"
    and "firstWriteIndex (IsTransactionWrite e) ba = Inr i"
    and "i \<noteq> - 1"
    and "needBeginTxn s"
  shows "SendLocked e ba s = beginTxnLocked e i (GetArg_EndTransaction ba) ba s"
  using assms by (auto simp: SendLocked_def)

lemma SendLocked_not_qualifying:
  assumes "finalErr s = None \<or> singleRollback ba"
    and "firstWriteIndex (IsTransactionWrite e) ba = Inr i"
    and "i = - 1 \<or> \<not> needBeginTxn s"
  shows "SendLocked e ba s =
           (Inr (wrapped e (trace s) ba), s\<lparr>trace := trace s @ [SentWrapped ba]\<rparr>)"
  using assms by (auto simp: SendLocked_def forwardLocked_def split: prod.splits)

lemma beginTxnLocked_forward:
  assumes "Txn ba = Some t"
    and "\<not> (txnEnd s = None \<and> \<not> haveEndTxn \<and> stopper_quiescing s)"
    and "anchor = (if len_Key (Key (txn s)) = 0 then Header_Key (Requests ba ! nat i)
                   else Key (txn s))"
    and "added = (eagerRecord s \<or> \<not> lazyTxnRecordActive s)"
    and "ba' = ba\<lparr>Txn := Some (t\<lparr>Writing := True,
                                   Key := (if len_Key (Key (txn s)) = 0 then anchor else Key t)\<rparr>),
                   Requests := (if added then injectBeginTxn (nat i) anchor (Requests ba)
                                else Requests ba)\<rparr>"
    and "s1 = s\<lparr>needBeginTxn := False, txn := (txn s)\<lparr>Writing := True, Key := anchor\<rparr>\<rparr>"
    and "s2 = (if txnEnd s = None \<and> \<not> haveEndTxn
               then s1\<lparr>txnEnd := Some (chans_made s), chans_made := Suc (chans_made s),
                       stopper_tasks := stopper_tasks s @ [HeartbeatLoopTask]\<rparr>
               else s1)"
  shows "beginTxnLocked e i haveEndTxn ba s = forwardLocked e added i ba' s2"
  using assms
  by (auto simp: beginTxnLocked_def Let_def startHeartbeatLoopLocked_def RunAsyncTask_def)

lemma beginTxnLocked_start_fails:
  assumes "Txn ba = Some t"
    and "txnEnd s = None" and "\<not> haveEndTxn" and "stopper_quiescing s"
    and "anchor = (if len_Key (Key (txn s)) = 0 then Header_Key (Requests ba ! nat i)
                   else Key (txn s))"
    and "err = NewError ''node unavailable; try another peer''"
  shows "beginTxnLocked e i haveEndTxn ba s =
           (Inr (None, Some err),
                s\<lparr>needBeginTxn := False, txn := (txn s)\<lparr>Writing := True, Key := anchor\<rparr>,
                  txnEnd := Some (chans_made s), chans_made := Suc (chans_made s),
                  finalErr := Some err\<rparr>)"
  using assms
  by (auto simp: beginTxnLocked_def Let_def startHeartbeatLoopLocked_def RunAsyncTask_def)

lemma firstWriteIndex_nonterminal:
  assumes "Requests ba = pre @ et # post"
    and "\<forall>r\<in>set pre. \<not> isWrite r"
    and "is_EndTransactionRequest et"
    and "post \<noteq> []"
  shows "firstWriteIndex isWrite ba = Inl (NewErrorf ''EndTransaction sent as non-terminal call'')"
  using firstWriteIndex_loop_nonterminal [OF assms(2-4), of "length (Requests ba)" 0] assms(1)
  by (simp add: firstWriteIndex_def)

lemma heartbeat_sends:
  assumes "Status (txn s) = PENDING" and "Key (txn s) \<noteq> None"
    and "gatekeeper e (trace s) (heartbeatBatch (txn s) (clock_Now s)) = (br, pErr)"
    and "s1 = s\<lparr>trace := trace s @ [SentGatekeeper (heartbeatBatch (txn s) (clock_Now s))]\<rparr>"
  shows "heartbeat e s =
     (case pErr of
        Some err \<Rightarrow>
          if detail err = Some (TransactionStatusError REASON_TXN_NOT_FOUND)
          then (Inr True, s1)
          else if detail err = Some TransactionAbortedError
          then (case abortTxnAsyncLocked (s1\<lparr>txn := (txn s1)\<lparr>Status := ABORTED\<rparr>\<rparr>) of
                  (Some c, s2) \<Rightarrow> (Inl c, s2)
                | (None, s2) \<Rightarrow> (Inr False, s2))
          else heartbeatUpdate e (UnexposedTxn err) s1
      | None \<Rightarrow>
          (case br of
             None \<Rightarrow> (Inl (Panic ''nil pointer dereference''), s1)
           | Some b \<Rightarrow>
               (case Responses b of
                  Some (HeartbeatTxnResponse respTxn # _) \<Rightarrow> heartbeatUpdate e respTxn s1
                | Some (_ # _) \<Rightarrow> (Inl (Panic ''interface conversion''), s1)
                | _ \<Rightarrow> (Inl (Panic ''index out of range''), s1))))"
  unfolding assms(4) using assms(1-3) by (auto simp: heartbeat_def Clone_def Let_def)

lemma abortTxnAsyncLocked_aborted:
  assumes "Status (txn s) = ABORTED"
  shows "abortTxnAsyncLocked s =
     (None, s\<lparr>trace := trace s @ [AsyncAbortCallback],
            stopper_tasks := (if stopper_quiescing s then stopper_tasks s
                              else stopper_tasks s @ [AbortTxnTask (abortBatch (txn s))])\<rparr>)"
  using assms by (simp add: abortTxnAsyncLocked_def RunAsyncTask_def Clone_def Let_def)


lemma heartbeatUpdate_aborted:
  assumes "Status (Update e (txn s) respTxn) = ABORTED"
  shows "heartbeatUpdate e respTxn s =
     (Inr False,
          s\<lparr>txn := Update e (txn s) respTxn,
            trace := trace s @ [AsyncAbortCallback],
            stopper_tasks := (if stopper_quiescing s then stopper_tasks s
                              else stopper_tasks s @
                                [AbortTxnTask (abortBatch (Update e (txn s) respTxn))])\<rparr>)"
  using assms by (simp add: heartbeatUpdate_def Let_def abortTxnAsyncLocked_aborted)

lemma forwardLocked_state:
  "snd (forwardLocked e added i ba s) = s\<lparr>trace := trace s @ [SentWrapped ba]\<rparr>"
  by (simp add: forwardLocked_def Let_def split: prod.splits sum.splits)

lemma forwardLocked_plain:
  "forwardLocked e False i ba s =
     (Inr (wrapped e (trace s) ba), s\<lparr>trace := trace s @ [SentWrapped ba]\<rparr>)"
  by (simp add: forwardLocked_def Let_def split: prod.splits)

lemma injectBeginTxn_at:
  "injectBeginTxn (length pre) k (pre @ wr # post) = pre @ BeginTransactionRequest k # wr # post"
  by (simp add: injectBeginTxn_def)

lemma SendLocked_marker_forward:
  assumes "finalErr s = None" and "needBeginTxn s"
    and "Requests ba = pre @ wr # post"
    and "\<forall>r\<in>set pre. \<not> IsTransactionWrite e r \<and> \<not> is_EndTransactionRequest r"
    and "IsTransactionWrite e wr"
    and "is_EndTransactionRequest wr \<longrightarrow> post = []"
    and "Txn ba = Some t"
    and "\<not> (txnEnd s = None \<and> \<not> GetArg_EndTransaction ba \<and> stopper_quiescing s)"
    and "anchor = (if len_Key (Key (txn s)) = 0 then Header_Key wr else Key (txn s))"
    and "ba' = \<lparr>Txn = Some (t\<lparr>Writing := True,
                               Key := (if len_Key (Key (txn s)) = 0 then anchor else Key t)\<rparr>),
                Requests = (if eagerRecord s \<or> \<not> lazyTxnRecordActive s
                            then pre @ BeginTransactionRequest anchor # wr # post
                            else pre @ wr # post)\<rparr>"
    and "s1 = s\<lparr>needBeginTxn := False, txn := (txn s)\<lparr>Writing := True, Key := anchor\<rparr>\<rparr>"
    and "s2 = (if txnEnd s = None \<and> \<not> GetArg_EndTransaction ba
               then s1\<lparr>txnEnd := Some (chans_made s), chans_made := Suc (chans_made s),
                       stopper_tasks := stopper_tasks s @ [HeartbeatLoopTask]\<rparr>
               else s1)"
  shows "SendLocked e ba s =
           forwardLocked e (eagerRecord s \<or> \<not> lazyTxnRecordActive s) (int (length pre)) ba' s2"
proof -
  have fw: "firstWriteIndex (IsTransactionWrite e) ba = Inr (int (length pre))"
    using assms(3-6) by (rule firstWriteIndex_found)
  have q: "SendLocked e ba s =
             beginTxnLocked e (int (length pre)) (GetArg_EndTransaction ba) ba s"
    using assms(1,2) fw by (simp add: SendLocked_qualifying)
  have nth: "Requests ba ! nat (int (length pre)) = wr"
    using assms(3) by simp
  have ba': "ba' = ba\<lparr>Txn := Some (t\<lparr>Writing := True,
                                   Key := (if len_Key (Key (txn s)) = 0 then anchor else Key t)\<rparr>),
                   Requests := (if eagerRecord s \<or> \<not> lazyTxnRecordActive s
                                then injectBeginTxn (nat (int (length pre))) anchor (Requests ba)
                                else Requests ba)\<rparr>"
    using assms(3,10) by (simp add: injectBeginTxn_at)
  show ?thesis
    unfolding q
    by (rule beginTxnLocked_forward [OF assms(7,8) _ refl ba' assms(11,12)])
      (use nth assms(9) in simp)
qed

lemma sint_of_nat_32:
  assumes "n < 2 ^ 31"
  shows "sint (word_of_int (int n) :: 32 word) = int n"
proof -
  have "- (2 ^ 31) \<le> int n" "int n < 2 ^ 31" using assms by auto
  then have "signed_take_bit 31 (int n) = int n"
    by (simp add: signed_take_bit_int_eq_self)
  moreover have "sint (word_of_int (int n) :: 32 word) = signed_take_bit 31 (int n)"
    by (simp add: signed_of_nat)
  ultimately show ?thesis by simp
qed

lemma int32_pred:
  fixes idx w :: "32 word"
  assumes "w <s idx"
  shows "sint (idx - 1) = sint idx - 1"
proof -
  have lo: "- (2 ^ 31) \<le> sint w" using sint_ge [of w] by simp
  have hi: "sint idx < 2 ^ 31" using sint_lt [of idx] by simp
  from assms have "sint w < sint idx" by (simp add: word_sless_alt)
  with lo hi have r: "- (2 ^ 31) \<le> sint idx - 1" "sint idx - 1 < 2 ^ 31" by auto
  have "sint (idx - 1) = signed_take_bit 31 (sint idx - 1)"
    by (simp add: sint_word_ariths)
  also have "\<dots> = sint idx - 1"
    using r by (simp add: signed_take_bit_int_eq_self)
  finally show ?thesis .
qed

lemma int32_pos_eq:
  fixes idx :: "32 word"
  assumes "n < 2 ^ 31"
  shows "(idx = word_of_int (int n)) = (sint idx = int n)"
    and "(word_of_int (int n) <s idx) = (int n < sint idx)"
proof -
  note s = sint_of_nat_32 [OF assms]
  show "(idx = word_of_int (int n)) = (sint idx = int n)"
    using s by (metis signed_word_eqI)
  show "(word_of_int (int n) <s idx) = (int n < sint idx)"
    using s by (simp add: word_sless_alt)
qed

lemma stripBeginTxnResponse_slots:
  assumes "Responses b = Some rs" and "i < length rs"
  shows "stripBeginTxnResponse i (Some b) =
           Inr (Some (b\<lparr>Responses := Some (take i rs @ drop (Suc i) rs)\<rparr>))"
  using assms by (simp add: stripBeginTxnResponse_def)

lemma beginTxnLocked_effects:
  assumes "Txn ba = Some t" and "s' = snd (beginTxnLocked e i haveEndTxn ba s)"
  shows "\<not> needBeginTxn s'"
    and "txnEnd s = None \<and> \<not> haveEndTxn \<Longrightarrow> txnEnd s' = Some (chans_made s)"
    and "\<not> (txnEnd s = None \<and> \<not> haveEndTxn) \<Longrightarrow>
           txnEnd s' = txnEnd s \<and> stopper_tasks s' = stopper_tasks s \<and> finalErr s' = finalErr s
           \<and> (\<exists>fwd. trace s' = trace s @ [SentWrapped fwd])"
    and "txnEnd s = None \<and> \<not> haveEndTxn \<and> stopper_quiescing s \<Longrightarrow>
           fst (beginTxnLocked e i haveEndTxn ba s) =
             Inr (None, Some (NewError ''node unavailable; try another peer''))
           \<and> finalErr s' = Some (NewError ''node unavailable; try another peer'')
           \<and> trace s' = trace s \<and> stopper_tasks s' = stopper_tasks s"
    and "txnEnd s = None \<and> \<not> haveEndTxn \<and> \<not> stopper_quiescing s \<Longrightarrow>
           stopper_tasks s' = stopper_tasks s @ [HeartbeatLoopTask] \<and> finalErr s' = finalErr s
           \<and> (\<exists>fwd. trace s' = trace s @ [SentWrapped fwd])"
proof -
  have fails: "beginTxnLocked e i haveEndTxn ba s =
           (Inr (None, Some (NewError ''node unavailable; try another peer'')),
            s\<lparr>needBeginTxn := False,
              txn := (txn s)\<lparr>Writing := True,
                Key := (if len_Key (Key (txn s)) = 0 then Header_Key (Requests ba ! nat i)
                        else Key (txn s))\<rparr>,
              txnEnd := Some (chans_made s), chans_made := Suc (chans_made s),
              finalErr := Some (NewError ''node unavailable; try another peer'')\<rparr>)"
    if "txnEnd s = None" "\<not> haveEndTxn" "stopper_quiescing s"
    using beginTxnLocked_start_fails [OF assms(1) that refl refl] .
  have fw: "snd (beginTxnLocked e i haveEndTxn ba s) =
      (if txnEnd s = None \<and> \<not> haveEndTxn
       then s\<lparr>needBeginTxn := False,
              txn := (txn s)\<lparr>Writing := True,
                Key := (if len_Key (Key (txn s)) = 0 then Header_Key (Requests ba ! nat i)
                        else Key (txn s))\<rparr>,
              txnEnd := Some (chans_made s), chans_made := Suc (chans_made s),
              stopper_tasks := stopper_tasks s @ [HeartbeatLoopTask]\<rparr>
       else s\<lparr>needBeginTxn := False,
              txn := (txn s)\<lparr>Writing := True,
                Key := (if len_Key (Key (txn s)) = 0 then Header_Key (Requests ba ! nat i)
                        else Key (txn s))\<rparr>\<rparr>)
      \<lparr>trace := trace s @ [SentWrapped
          (ba\<lparr>Txn := Some (t\<lparr>Writing := True,
                  Key := (if len_Key (Key (txn s)) = 0
                          then (if len_Key (Key (txn s)) = 0 then Header_Key (Requests ba ! nat i)
                                else Key (txn s))
                          else Key t)\<rparr>),
               Requests := (if eagerRecord s \<or> \<not> lazyTxnRecordActive s
                            then injectBeginTxn (nat i)
                                   (if len_Key (Key (txn s)) = 0 then Header_Key (Requests ba ! nat i)
                                    else Key (txn s)) (Requests ba)
                            else Requests ba)\<rparr>)]\<rparr>"
    if "\<not> (txnEnd s = None \<and> \<not> haveEndTxn \<and> stopper_quiescing s)"
    unfolding beginTxnLocked_forward [OF assms(1) that refl refl refl refl refl] forwardLocked_state
    by simp
  show "\<not> needBeginTxn s'"
    using fails fw assms(2)
    by (cases "txnEnd s = None \<and> \<not> haveEndTxn \<and> stopper_quiescing s") auto
  show "txnEnd s = None \<and> \<not> haveEndTxn \<Longrightarrow> txnEnd s' = Some (chans_made s)"
    using fails fw assms(2)
    by (cases "stopper_quiescing s") auto
  show "\<not> (txnEnd s = None \<and> \<not> haveEndTxn) \<Longrightarrow>
           txnEnd s' = txnEnd s \<and> stopper_tasks s' = stopper_tasks s \<and> finalErr s' = finalErr s
           \<and> (\<exists>fwd. trace s' = trace s @ [SentWrapped fwd])"
    using fw assms(2) by auto
  show "txnEnd s = None \<and> \<not> haveEndTxn \<and> stopper_quiescing s \<Longrightarrow>
           fst (beginTxnLocked e i haveEndTxn ba s) =
             Inr (None, Some (NewError ''node unavailable; try another peer''))
           \<and> finalErr s' = Some (NewError ''node unavailable; try another peer'')
           \<and> trace s' = trace s \<and> stopper_tasks s' = stopper_tasks s"
    using fails assms(2) by auto
  show "txnEnd s = None \<and> \<not> haveEndTxn \<and> \<not> stopper_quiescing s \<Longrightarrow>
           stopper_tasks s' = stopper_tasks s @ [HeartbeatLoopTask] \<and> finalErr s' = finalErr s
           \<and> (\<exists>fwd. trace s' = trace s @ [SentWrapped fwd])"
    using fw assms(2) by auto
qed

lemma beginTxnLocked_clears_needBeginTxn:
  "\<not> needBeginTxn (snd (beginTxnLocked e i haveEndTxn ba s))"
proof (cases "Txn ba")
  case None
  then show ?thesis by (simp add: beginTxnLocked_def Let_def)
next
  case (Some t)
  then show ?thesis using beginTxnLocked_effects(1) [OF Some refl] by blast
qed

lemma SendLocked_without_needBeginTxn:
  assumes "\<not> needBeginTxn s"
  shows "snd (SendLocked e ba s) = s
       \<or> snd (SendLocked e ba s) = s\<lparr>trace := trace s @ [SentWrapped ba]\<rparr>"
  using assms
  by (auto simp: SendLocked_def forwardLocked_plain split: sum.splits)

lemma abortTxnAsyncLocked_frame:
  "needBeginTxn (snd (abortTxnAsyncLocked s)) = needBeginTxn s
   \<and> (trace (snd (abortTxnAsyncLocked s)) = trace s
      \<or> trace (snd (abortTxnAsyncLocked s)) = trace s @ [AsyncAbortCallback])"
  by (simp add: abortTxnAsyncLocked_def RunAsyncTask_def Let_def)

lemma heartbeatUpdate_frame:
  "needBeginTxn (snd (heartbeatUpdate e respTxn s)) = needBeginTxn s
   \<and> (trace (snd (heartbeatUpdate e respTxn s)) = trace s
      \<or> trace (snd (heartbeatUpdate e respTxn s)) = trace s @ [AsyncAbortCallback])"
  using abortTxnAsyncLocked_frame [of "s\<lparr>txn := Update e (txn s) respTxn\<rparr>"]
  by (auto simp: heartbeatUpdate_def Let_def split: prod.splits option.splits)

lemma heartbeat_frame:
  "needBeginTxn (snd (heartbeat e s)) = needBeginTxn s
   \<and> (\<exists>evs. trace (snd (heartbeat e s)) = trace s @ evs \<and> (\<forall>b. SentWrapped b \<notin> set evs))"
proof (cases "Status (txn s) = PENDING \<and> Key (txn s) \<noteq> None")
  case False
  then show ?thesis by (auto simp: heartbeat_def Clone_def Let_def)
next
  case True
  obtain br pErr where g: "gatekeeper e (trace s) (heartbeatBatch (txn s) (clock_Now s)) = (br, pErr)"
    by (cases "gatekeeper e (trace s) (heartbeatBatch (txn s) (clock_Now s))") auto
  let ?hb = "heartbeatBatch (txn s) (clock_Now s)"
  let ?s1 = "s\<lparr>trace := trace s @ [SentGatekeeper ?hb]\<rparr>"
  from True have p: "Status (txn s) = PENDING" and k: "Key (txn s) \<noteq> None" by auto
  note hs = heartbeat_sends [OF p k g refl]
  have u: "needBeginTxn (snd (heartbeatUpdate e r ?s1)) = needBeginTxn s
       \<and> (\<exists>evs. trace (snd (heartbeatUpdate e r ?s1)) = trace s @ evs
                \<and> (\<forall>b. SentWrapped b \<notin> set evs))" for r
    using heartbeatUpdate_frame [of e r ?s1] by auto
  have a: "needBeginTxn (snd (abortTxnAsyncLocked (?s1\<lparr>txn := (txn ?s1)\<lparr>Status := ABORTED\<rparr>\<rparr>)))
             = needBeginTxn s
       \<and> (\<exists>evs. trace (snd (abortTxnAsyncLocked (?s1\<lparr>txn := (txn ?s1)\<lparr>Status := ABORTED\<rparr>\<rparr>)))
                  = trace s @ evs \<and> (\<forall>b. SentWrapped b \<notin> set evs))"
    using abortTxnAsyncLocked_frame [of "?s1\<lparr>txn := (txn ?s1)\<lparr>Status := ABORTED\<rparr>\<rparr>"] by auto
  show ?thesis
  proof (cases pErr)
    case None
    show ?thesis
    proof (cases br)
      case n: None
      with None hs show ?thesis by simp
    next
      case (Some b)
      show ?thesis
      proof (cases "Responses b")
        case n: None
        with None Some hs show ?thesis by simp
      next
        case rs: (Some rs)
        show ?thesis
        proof (cases rs)
          case Nil
          with None Some rs hs show ?thesis by simp
        next
          case (Cons r rest)
          with None Some rs hs u show ?thesis by (cases r) simp_all
        qed
      qed
    qed
  next
    case (Some err)
    show ?thesis
    proof (cases "detail err = Some (TransactionStatusError REASON_TXN_NOT_FOUND)")
      case True
      with Some hs show ?thesis by simp
    next
      case nf: False
      show ?thesis
      proof (cases "detail err = Some TransactionAbortedError")
        case True
        with Some nf hs a show ?thesis by (auto split: prod.splits option.splits)
      next
        case False
        with Some nf hs u show ?thesis by simp
      qed
    qed
  qed
qed

lemma run_calls_same_epoch:
  assumes "\<not> needBeginTxn s" and "CallEpochBumpedLocked \<notin> set cs"
  shows "\<not> needBeginTxn (snd (run_calls e cs s))
       \<and> (\<exists>sent. trace (snd (run_calls e cs s)) = trace s @ sent
                  \<and> (\<forall>b. SentWrapped b \<in> set sent \<longrightarrow> CallSendLocked b \<in> set cs))"
  using assms
proof (induction cs arbitrary: s)
  case Nil
  then show ?case by simp
next
  case (Cons c cs)
  show ?case
  proof (cases c)
    case (CallSendLocked ba)
    obtain r s1 where sl: "SendLocked e ba s = (r, s1)" by (cases "SendLocked e ba s") auto
    from SendLocked_without_needBeginTxn [OF Cons.prems(1), of e ba] sl
    have s1: "s1 = s \<or> s1 = s\<lparr>trace := trace s @ [SentWrapped ba]\<rparr>" by simp
    then have n1: "\<not> needBeginTxn s1" using Cons.prems(1) by auto
    from s1 obtain ev where ev: "trace s1 = trace s @ ev"
      "\<forall>b. SentWrapped b \<in> set ev \<longrightarrow> b = ba" by auto
    from Cons.prems(2) have ne: "CallEpochBumpedLocked \<notin> set cs" by simp
    note ih = Cons.IH [OF n1 ne]
    show ?thesis
    proof (cases r)
      case (Inl cr)
      with sl CallSendLocked n1 ev show ?thesis by auto
    next
      case (Inr res)
      with sl CallSendLocked have "run_calls e (c # cs) s = run_calls e cs s1" by simp
      with ih ev CallSendLocked show ?thesis by auto
    qed
  next
    case CallHeartbeat
    obtain r s1 where hb: "heartbeat e s = (r, s1)" by (cases "heartbeat e s") auto
    from heartbeat_frame [of e s] hb
    have n1: "\<not> needBeginTxn s1" and "\<exists>evs. trace s1 = trace s @ evs \<and> (\<forall>b. SentWrapped b \<notin> set evs)"
      using Cons.prems(1) by auto
    then obtain ev where ev: "trace s1 = trace s @ ev" "\<forall>b. SentWrapped b \<notin> set ev" by blast
    from Cons.prems(2) have ne: "CallEpochBumpedLocked \<notin> set cs" by simp
    note ih = Cons.IH [OF n1 ne]
    show ?thesis
    proof (cases r)
      case (Inl cr)
      with hb CallHeartbeat n1 ev show ?thesis by auto
    next
      case (Inr res)
      with hb CallHeartbeat have "run_calls e (c # cs) s = run_calls e cs s1" by simp
      with ih ev CallHeartbeat show ?thesis by auto
    qed
  next
    case CallCloseLocked
    have n1: "\<not> needBeginTxn (closeLocked s)" and t1: "trace (closeLocked s) = trace s"
      using Cons.prems(1) by (auto simp: closeLocked_def split: option.splits)
    from Cons.prems(2) have ne: "CallEpochBumpedLocked \<notin> set cs" by simp
    from Cons.IH [OF n1 ne] t1 CallCloseLocked show ?thesis by auto
  next
    case CallEpochBumpedLocked
    with Cons.prems(2) show ?thesis by simp
  qed
qed

lemmas example_defs =
  example_system_def example_env_def example_isWrite_def example_Put_def example_Get_def
  len_Key_def

subsection \<open>Requests after a final error\<close>

text \<open>
  C1. While \<open>finalErr\<close> is set, a batch that consists solely of one end-transaction
  request with commit=false is forwarded to the wrapped sender, and its answer is
  returned; every other batch is answered with \<open>finalErr\<close>, and nothing is sent (the
  state, trace included, is unchanged). The rollback request itself is not a
  transactional write, as for every end-transaction request in package roachpb.
\<close>

theorem SendLocked_after_finalErr:
  assumes "finalErr s = Some err"
  shows "(Requests ba = [EndTransactionRequest k False p]
            \<and> \<not> IsTransactionWrite e (EndTransactionRequest k False p)
          \<longrightarrow> SendLocked e ba s =
                (Inr (wrapped e (trace s) ba), s\<lparr>trace := trace s @ [SentWrapped ba]\<rparr>))
       \<and> ((\<nexists>k p. Requests ba = [EndTransactionRequest k False p])
          \<longrightarrow> SendLocked e ba s = (Inr (None, Some err), s))"
proof (intro conjI impI)
  assume h: "Requests ba = [EndTransactionRequest k False p]
            \<and> \<not> IsTransactionWrite e (EndTransactionRequest k False p)"
  then have sr: "singleRollback ba" by (auto simp: singleRollback_iff)
  from h have fw: "firstWriteIndex (IsTransactionWrite e) ba = Inr (- 1)"
    by (simp add: firstWriteIndex_def)
  show "SendLocked e ba s =
                (Inr (wrapped e (trace s) ba), s\<lparr>trace := trace s @ [SentWrapped ba]\<rparr>)"
    using sr fw by (simp add: SendLocked_not_qualifying)
next
  assume "\<nexists>k p. Requests ba = [EndTransactionRequest k False p]"
  then have "\<not> singleRollback ba" by (simp add: singleRollback_iff)
  then show "SendLocked e ba s = (Inr (None, Some err), s)"
    using assms by (simp add: SendLocked_def)
qed

theorem SendLocked_after_finalErr_witness:
  "finalErr (example_system\<lparr>finalErr := Some (NewErrorf ''heartbeat failed fatally'')\<rparr>)
     = Some (NewErrorf ''heartbeat failed fatally'')
   \<and> SendLocked (example_env (None, None) (None, None))
        \<lparr>Txn = None, Requests = [EndTransactionRequest None False True]\<rparr>
        (example_system\<lparr>finalErr := Some (NewErrorf ''heartbeat failed fatally'')\<rparr>)
     = (Inr (None, None),
            example_system\<lparr>finalErr := Some (NewErrorf ''heartbeat failed fatally''),
              trace := [SentWrapped \<lparr>Txn = None, Requests = [EndTransactionRequest None False True]\<rparr>]\<rparr>)
   \<and> SendLocked (example_env (None, None) (None, None))
        \<lparr>Txn = None, Requests = [EndTransactionRequest None True False]\<rparr>
        (example_system\<lparr>finalErr := Some (NewErrorf ''heartbeat failed fatally'')\<rparr>)
     = (Inr (None, Some (NewErrorf ''heartbeat failed fatally'')),
            example_system\<lparr>finalErr := Some (NewErrorf ''heartbeat failed fatally'')\<rparr>)"
  using SendLocked_after_finalErr
          [of "example_system\<lparr>finalErr := Some (NewErrorf ''heartbeat failed fatally'')\<rparr>"
              "NewErrorf ''heartbeat failed fatally''"
              "\<lparr>Txn = None, Requests = [EndTransactionRequest None False True]\<rparr>"
              None True "example_env (None, None) (None, None)"]
        SendLocked_after_finalErr
          [of "example_system\<lparr>finalErr := Some (NewErrorf ''heartbeat failed fatally'')\<rparr>"
              "NewErrorf ''heartbeat failed fatally''"
              "\<lparr>Txn = None, Requests = [EndTransactionRequest None True False]\<rparr>"
              None True "example_env (None, None) (None, None)"]
  by (simp add: example_system_def example_env_def example_isWrite_def)


subsection \<open>A lone commit\<close>

text \<open>
  C9, as the code has it. A batch whose only request is an end-transaction request with
  commit=true holds no transactional write (the request is none), so the write trigger
  of \<open>needBeginTxn\<close> does not apply. When no final error is set, the batch handed to
  the wrapped sender is the batch received, without a begin-transaction request, the
  answer of the wrapped sender is returned as it is, and the state changes in the trace
  only.
\<close>

theorem SendLocked_single_commit:
  assumes "finalErr s = None"
    and "Requests ba = [EndTransactionRequest k True p]"
    and "\<not> IsTransactionWrite e (EndTransactionRequest k True p)"
  shows "SendLocked e ba s =
           (Inr (wrapped e (trace s) ba), s\<lparr>trace := trace s @ [SentWrapped ba]\<rparr>)"
proof -
  from assms(2,3) have "firstWriteIndex (IsTransactionWrite e) ba = Inr (- 1)"
    by (simp add: firstWriteIndex_def)
  with assms(1) show ?thesis by (simp add: SendLocked_not_qualifying)
qed

theorem SendLocked_single_commit_witness:
  "finalErr example_system = None
   \<and> SendLocked (example_env (Some \<lparr>Responses = Some [OtherResponse ''EndTransaction'']\<rparr>, None) (None, None))
        \<lparr>Txn = Some (txn example_system), Requests = [EndTransactionRequest None True False]\<rparr>
        example_system
     = (Inr (Some \<lparr>Responses = Some [OtherResponse ''EndTransaction'']\<rparr>, None),
            example_system\<lparr>trace :=
              [SentWrapped \<lparr>Txn = Some (txn example_system),
                            Requests = [EndTransactionRequest None True False]\<rparr>]\<rparr>)"
  using SendLocked_single_commit
          [of example_system
              "\<lparr>Txn = Some (txn example_system), Requests = [EndTransactionRequest None True False]\<rparr>"
              None False
              "example_env (Some \<lparr>Responses = Some [OtherResponse ''EndTransaction'']\<rparr>, None) (None, None)"]
  by (simp add: example_system_def example_env_def example_isWrite_def)

text \<open>
  C9 as stated does not hold once \<open>finalErr\<close> is set: the commit is not a rollback, so
  the batch is answered with \<open>finalErr\<close> and the wrapped sender receives nothing.
\<close>

theorem SendLocked_single_commit_after_finalErr:
  "SendLocked (example_env (Some \<lparr>Responses = Some [OtherResponse ''EndTransaction'']\<rparr>, None)
                  (None, None))
      \<lparr>Txn = Some (txn example_system), Requests = [EndTransactionRequest None True False]\<rparr>
      (example_system\<lparr>finalErr := Some (NewErrorf ''heartbeat failed fatally'')\<rparr>)
   = (Inr (None, Some (NewErrorf ''heartbeat failed fatally'')),
      example_system\<lparr>finalErr := Some (NewErrorf ''heartbeat failed fatally'')\<rparr>)
   \<and> trace (example_system\<lparr>finalErr := Some (NewErrorf ''heartbeat failed fatally'')\<rparr>) = []"
  by (simp add: SendLocked_def singleRollback_def IsSingleEndTransactionRequest_def
      example_system_def)

subsection \<open>End-transaction requests in the middle of a batch\<close>

text \<open>
  C5. The doc comment of \<open>firstWriteIndex\<close> says that it verifies that an
  end-transaction request, if included, is the last request of the batch. The loop
  returns at the first transactional write, so an end-transaction request that follows
  a write at a position other than the last is never looked at: for the batch Put,
  EndTransaction, Get the function returns index 0 and no error, and \<open>SendLocked\<close>
  forwards the batch to the wrapped sender. The check fires only when no transactional
  write precedes the misplaced request (\<open>firstWriteIndex_nonterminal\<close>).
\<close>

theorem firstWriteIndex_skips_later_EndTransaction:
  "firstWriteIndex example_isWrite
      \<lparr>Txn = Some (txn example_system),
       Requests = [example_Put 1, EndTransactionRequest None True False, example_Get 2]\<rparr>
     = Inr 0
   \<and> SendLocked (example_env (None, None) (None, None))
      \<lparr>Txn = Some (txn example_system),
       Requests = [example_Put 1, EndTransactionRequest None True False, example_Get 2]\<rparr>
      (example_system\<lparr>needBeginTxn := False\<rparr>)
     = (Inr (None, None),
            example_system\<lparr>needBeginTxn := False,
              trace := [SentWrapped \<lparr>Txn = Some (txn example_system),
                 Requests = [example_Put 1, EndTransactionRequest None True False, example_Get 2]\<rparr>]\<rparr>)"
  by (simp add: firstWriteIndex_def SendLocked_def forwardLocked_def example_isWrite_def
      example_Put_def example_Get_def example_env_def example_system_def singleRollback_def
      IsSingleEndTransactionRequest_def GetArg_EndTransaction_def)

subsection \<open>One heartbeat\<close>

text \<open>
  C6. A heartbeat is sent when the transaction is pending and has its anchor key. When
  the gatekeeper answers it with a transaction-status error whose reason is
  \<open>REASON_TXN_NOT_FOUND\<close>, \<open>heartbeat\<close> returns true: the state is the one before
  the call but for the trace entry of the send, so \<open>finalErr\<close>, the channel and the
  transaction record are untouched, and the loop goes on to its next \<open>select\<close>.
\<close>

theorem heartbeat_record_not_found:
  assumes "Status (txn s) = PENDING" and "Key (txn s) \<noteq> None"
    and "gatekeeper e (trace s) (heartbeatBatch (txn s) (clock_Now s)) = (br, Some err)"
    and "detail err = Some (TransactionStatusError REASON_TXN_NOT_FOUND)"
    and "s1 = s\<lparr>trace := trace s @ [SentGatekeeper (heartbeatBatch (txn s) (clock_Now s))]\<rparr>"
  shows "heartbeat e s = (Inr True, s1)
       \<and> finalErr s1 = finalErr s \<and> txnEnd s1 = txnEnd s \<and> txn s1 = txn s
       \<and> heartbeatLoop_select e (TickChan # cs) s = heartbeatLoop_select e cs s1"
proof -
  have hb: "heartbeat e s = (Inr True, s1)"
    using heartbeat_sends [OF assms(1,2,3,5)] assms(4) by simp
  then show ?thesis using assms(5) by simp
qed

theorem heartbeat_record_not_found_witness:
  "Status (txn example_running) = PENDING \<and> Key (txn example_running) \<noteq> None
   \<and> gatekeeper (example_env (None, None)
          (None, Some (example_error (TransactionStatusError REASON_TXN_NOT_FOUND))))
        (trace example_running) (heartbeatBatch (txn example_running) (clock_Now example_running))
      = (None, Some (example_error (TransactionStatusError REASON_TXN_NOT_FOUND)))
   \<and> detail (example_error (TransactionStatusError REASON_TXN_NOT_FOUND))
      = Some (TransactionStatusError REASON_TXN_NOT_FOUND)
   \<and> heartbeat (example_env (None, None)
          (None, Some (example_error (TransactionStatusError REASON_TXN_NOT_FOUND))))
        example_running
      = (Inr True,
             example_running
               \<lparr>trace := [SentGatekeeper \<lparr>Txn = Some \<lparr>Key = Some [1], Status = PENDING, Writing = True\<rparr>,
                                           Requests = [HeartbeatTxnRequest (Some [1]) 7]\<rparr>]\<rparr>)
   \<and> heartbeatLoop_select (example_env (None, None)
          (None, Some (example_error (TransactionStatusError REASON_TXN_NOT_FOUND))))
        [TickChan] example_running
      = (Inr Blocked,
             example_running
               \<lparr>trace := [SentGatekeeper \<lparr>Txn = Some \<lparr>Key = Some [1], Status = PENDING, Writing = True\<rparr>,
                                           Requests = [HeartbeatTxnRequest (Some [1]) 7]\<rparr>]\<rparr>)"
  using heartbeat_record_not_found
          [of example_running
              "example_env (None, None)
                 (None, Some (example_error (TransactionStatusError REASON_TXN_NOT_FOUND)))"
              None "example_error (TransactionStatusError REASON_TXN_NOT_FOUND)"
              "example_running\<lparr>trace := trace example_running @
                 [SentGatekeeper (heartbeatBatch (txn example_running) (clock_Now example_running))]\<rparr>"
              "[]"]
  by (simp add: example_running_def example_system_def example_env_def example_error_def
      heartbeatBatch_def)

text \<open>
  C2, as the code has it. A heartbeat observes the abort either in a
  transaction-aborted error of the gatekeeper, or in the status of the record after
  the transaction of the answer (that of another error, or that of the heartbeat
  response) has been merged into it. Then the local record \<open>t\<close> has status ABORTED,
  \<open>heartbeat\<close> returns false, the callback is called once, after the send to the
  gatekeeper, and a batch holding one end-transaction request with commit=false and
  poison=true is given to the stopper as an asynchronous task, which sends it through
  the wrapped sender when it runs. The stopper refuses the task when it is quiescing;
  the refusal is only logged, and then no rollback is sent at all.
\<close>

theorem heartbeat_detects_abort:
  assumes "Status (txn s) = PENDING" and "Key (txn s) \<noteq> None"
    and "hb = heartbeatBatch (txn s) (clock_Now s)"
    and "gatekeeper e (trace s) hb = (br, pErr)"
    and "(\<exists>err. pErr = Some err \<and> detail err = Some TransactionAbortedError
               \<and> t = (txn s)\<lparr>Status := ABORTED\<rparr>)
         \<or> (\<exists>err. pErr = Some err
               \<and> detail err \<noteq> Some (TransactionStatusError REASON_TXN_NOT_FOUND)
               \<and> detail err \<noteq> Some TransactionAbortedError
               \<and> t = Update e (txn s) (UnexposedTxn err) \<and> Status t = ABORTED)
         \<or> (\<exists>b respTxn rest. pErr = None \<and> br = Some b
               \<and> Responses b = Some (HeartbeatTxnResponse respTxn # rest)
               \<and> t = Update e (txn s) respTxn \<and> Status t = ABORTED)"
  shows "heartbeat e s =
           (Inr False,
                s\<lparr>txn := t,
                  trace := trace s @ [SentGatekeeper hb, AsyncAbortCallback],
                  stopper_tasks := (if stopper_quiescing s then stopper_tasks s
                                    else stopper_tasks s @ [AbortTxnTask (abortBatch t)])\<rparr>)
       \<and> Status t = ABORTED
       \<and> abortBatch t = \<lparr>Txn = Some t, Requests = [EndTransactionRequest None False True]\<rparr>
       \<and> trace (runAbortTxnTask e (abortBatch t) s') = trace s' @ [SentWrapped (abortBatch t)]"
proof -
  let ?s1 = "s\<lparr>trace := trace s @ [SentGatekeeper hb]\<rparr>"
  note hs = heartbeat_sends [OF assms(1,2) assms(4) [unfolded assms(3)],
      of ?s1, unfolded assms(3) [symmetric], OF refl]
  from assms(5) have run: "heartbeat e s =
           (Inr False,
                s\<lparr>txn := t,
                  trace := trace s @ [SentGatekeeper hb, AsyncAbortCallback],
                  stopper_tasks := (if stopper_quiescing s then stopper_tasks s
                                    else stopper_tasks s @ [AbortTxnTask (abortBatch t)])\<rparr>)
       \<and> Status t = ABORTED"
  proof (elim disjE exE conjE)
    fix err
    assume "pErr = Some err" "detail err = Some TransactionAbortedError"
      "t = (txn s)\<lparr>Status := ABORTED\<rparr>"
    then show ?thesis
      using hs by (simp add: abortTxnAsyncLocked_aborted)
  next
    fix err
    assume "pErr = Some err"
      "detail err \<noteq> Some (TransactionStatusError REASON_TXN_NOT_FOUND)"
      "detail err \<noteq> Some TransactionAbortedError"
      "t = Update e (txn s) (UnexposedTxn err)" "Status t = ABORTED"
    then show ?thesis
      using hs by (simp add: heartbeatUpdate_aborted)
  next
    fix b respTxn rest
    assume "pErr = None" "br = Some b"
      "Responses b = Some (HeartbeatTxnResponse respTxn # rest)"
      "t = Update e (txn s) respTxn" "Status t = ABORTED"
    then show ?thesis
      using hs by (simp add: heartbeatUpdate_aborted)
  qed
  then show ?thesis
    by (simp add: abortBatch_def runAbortTxnTask_def split: prod.splits)
qed

theorem heartbeat_detects_abort_witness:
  "Status (txn example_running) = PENDING \<and> Key (txn example_running) \<noteq> None
   \<and> gatekeeper (example_env (None, None) (None, Some (example_error TransactionAbortedError)))
        (trace example_running) (heartbeatBatch (txn example_running) (clock_Now example_running))
      = (None, Some (example_error TransactionAbortedError))
   \<and> detail (example_error TransactionAbortedError) = Some TransactionAbortedError
   \<and> heartbeat (example_env (None, None) (None, Some (example_error TransactionAbortedError)))
        example_running
      = (Inr False,
             example_running
               \<lparr>txn := \<lparr>Key = Some [1], Status = ABORTED, Writing = True\<rparr>,
                trace := [SentGatekeeper \<lparr>Txn = Some \<lparr>Key = Some [1], Status = PENDING, Writing = True\<rparr>,
                                           Requests = [HeartbeatTxnRequest (Some [1]) 7]\<rparr>,
                          AsyncAbortCallback],
                stopper_tasks := [HeartbeatLoopTask,
                   AbortTxnTask \<lparr>Txn = Some \<lparr>Key = Some [1], Status = ABORTED, Writing = True\<rparr>,
                                 Requests = [EndTransactionRequest None False True]\<rparr>]\<rparr>)"
  using heartbeat_detects_abort
          [of example_running
              "heartbeatBatch (txn example_running) (clock_Now example_running)"
              "example_env (None, None) (None, Some (example_error TransactionAbortedError))"
              None "Some (example_error TransactionAbortedError)"
              "(txn example_running)\<lparr>Status := ABORTED\<rparr>"]
  by (simp add: example_running_def example_system_def example_env_def example_error_def
      heartbeatBatch_def abortBatch_def)

text \<open>
  C2 as stated does not hold while the stopper is quiescing: the abort is observed, the
  status is set and the callback is called, but the stopper takes no task, and nothing
  is sent through the wrapped sender.
\<close>

theorem heartbeat_abort_while_quiescing:
  "heartbeat (example_env (None, None) (None, Some (example_error TransactionAbortedError)))
        (example_running\<lparr>stopper_quiescing := True\<rparr>)
      = (Inr False,
             example_running
               \<lparr>stopper_quiescing := True,
                txn := \<lparr>Key = Some [1], Status = ABORTED, Writing = True\<rparr>,
                trace := [SentGatekeeper \<lparr>Txn = Some \<lparr>Key = Some [1], Status = PENDING, Writing = True\<rparr>,
                                           Requests = [HeartbeatTxnRequest (Some [1]) 7]\<rparr>,
                          AsyncAbortCallback],
                stopper_tasks := [HeartbeatLoopTask]\<rparr>)"
  by (simp add: heartbeat_def abortTxnAsyncLocked_def RunAsyncTask_def Clone_def Let_def
      example_running_def example_system_def example_env_def example_error_def
      heartbeatBatch_def abortBatch_def)

subsection \<open>The begin-transaction request\<close>

text \<open>
  C3, as the code has it. Take a batch that carries its transaction, in which an
  end-transaction request, if any, is the last request, and whose first transactional
  write is \<open>wr\<close>, with \<open>needBeginTxn\<close> set and no final error, in a call where
  starting the heartbeat loop does not fail. If \<open>eagerRecord\<close> is set or the lazy
  transaction record is not active in the cluster version, the batch that the wrapped
  sender receives is the original one with a begin-transaction request for the anchor
  key immediately before \<open>wr\<close>, every other request in its place: one request more;
  and when the wrapped sender answers with one response per request of that batch, the
  response returned is its answer without the slot of the injected request: as many
  slots as the original batch has requests. Otherwise nothing is injected: the wrapped
  sender receives the requests of the original batch, all of them and in their order,
  and its answer is returned as it is.
\<close>

theorem SendLocked_injects_BeginTransaction:
  assumes "finalErr s = None" and "needBeginTxn s"
    and "Requests ba = pre @ wr # post"
    and "\<forall>r\<in>set pre. \<not> IsTransactionWrite e r"
    and "IsTransactionWrite e wr"
    and "\<forall>r\<in>set (butlast (Requests ba)). \<not> is_EndTransactionRequest r"
    and "Txn ba = Some t"
    and "\<not> (txnEnd s = None \<and> \<not> GetArg_EndTransaction ba \<and> stopper_quiescing s)"
    and "anchor = (if len_Key (Key (txn s)) = 0 then Header_Key wr else Key (txn s))"
    and "added = (eagerRecord s \<or> \<not> lazyTxnRecordActive s)"
    and "ba' = \<lparr>Txn = Some (t\<lparr>Writing := True,
                               Key := (if len_Key (Key (txn s)) = 0 then anchor else Key t)\<rparr>),
                Requests = (if added then pre @ BeginTransactionRequest anchor # wr # post
                            else pre @ wr # post)\<rparr>"
  shows "trace (snd (SendLocked e ba s)) = trace s @ [SentWrapped ba']
       \<and> (added \<longrightarrow>
             length (Requests ba') = length (Requests ba) + 1
             \<and> (\<forall>b rs pErr. wrapped e (trace s) ba' = (Some b, pErr) \<and> Responses b = Some rs
                             \<and> length rs = length (Requests ba')
                  \<longrightarrow> fst (SendLocked e ba s)
                        = Inr (Some (b\<lparr>Responses :=
                                 Some (take (length pre) rs @ drop (Suc (length pre)) rs)\<rparr>),
                               adjustErrorIndex (int (length pre)) pErr)
                      \<and> length (take (length pre) rs @ drop (Suc (length pre)) rs)
                        = length (Requests ba)))
       \<and> (\<not> added \<longrightarrow>
             Requests ba' = Requests ba
             \<and> fst (SendLocked e ba s) = Inr (wrapped e (trace s) ba'))"
proof -
  let ?s1 = "s\<lparr>needBeginTxn := False, txn := (txn s)\<lparr>Writing := True, Key := anchor\<rparr>\<rparr>"
  let ?s2 = "if txnEnd s = None \<and> \<not> GetArg_EndTransaction ba
             then ?s1\<lparr>txnEnd := Some (chans_made s), chans_made := Suc (chans_made s),
                      stopper_tasks := stopper_tasks s @ [HeartbeatLoopTask]\<rparr>
             else ?s1"
  have bl: "butlast (Requests ba) = pre @ butlast (wr # post)"
    using assms(3) by (simp add: butlast_append)
  have pre: "\<forall>r\<in>set pre. \<not> IsTransactionWrite e r \<and> \<not> is_EndTransactionRequest r"
    using assms(4,6) bl by simp
  have last: "is_EndTransactionRequest wr \<longrightarrow> post = []"
    using assms(6) bl by (cases post) auto
  have ba': "ba' = \<lparr>Txn = Some (t\<lparr>Writing := True,
                               Key := (if len_Key (Key (txn s)) = 0 then anchor else Key t)\<rparr>),
                Requests = (if eagerRecord s \<or> \<not> lazyTxnRecordActive s
                            then pre @ BeginTransactionRequest anchor # wr # post
                            else pre @ wr # post)\<rparr>"
    using assms(10,11) by simp
  have fwd: "SendLocked e ba s = forwardLocked e added (int (length pre)) ba' ?s2"
    using SendLocked_marker_forward
            [OF assms(1-3) pre assms(5) last assms(7,8,9) ba' refl refl] assms(10)
    by simp
  have tr: "trace ?s2 = trace s" by simp
  have t1: "trace (snd (SendLocked e ba s)) = trace s @ [SentWrapped ba']"
    unfolding fwd forwardLocked_state using tr by simp
  have t2: "length (Requests ba') = length (Requests ba) + 1" if added
    using that assms(3,11) by simp
  have t3: "fst (SendLocked e ba s)
                  = Inr (Some (b\<lparr>Responses :=
                                   Some (take (length pre) rs @ drop (Suc (length pre)) rs)\<rparr>),
                         adjustErrorIndex (int (length pre)) pErr)
                \<and> length (take (length pre) rs @ drop (Suc (length pre)) rs)
                  = length (Requests ba)"
    if a: added and w: "wrapped e (trace s) ba' = (Some b, pErr)" and r: "Responses b = Some rs"
      and l: "length rs = length (Requests ba')" for b rs pErr
  proof -
    from l a assms(11) have lt: "length pre < length rs" by simp
    have "fst (forwardLocked e True (int (length pre)) ba' ?s2) =
            Inr (Some (b\<lparr>Responses := Some (take (length pre) rs @ drop (Suc (length pre)) rs)\<rparr>),
                 adjustErrorIndex (int (length pre)) pErr)"
      using w tr stripBeginTxnResponse_slots [OF r lt]
      by (simp add: forwardLocked_def Let_def)
    moreover have "length (take (length pre) rs @ drop (Suc (length pre)) rs) = length (Requests ba)"
      using l lt t2 [OF a] by simp
    ultimately show ?thesis unfolding fwd using a by simp
  qed
  have t4: "Requests ba' = Requests ba" if "\<not> added"
    using that assms(3,11) by simp
  have t5: "fst (SendLocked e ba s) = Inr (wrapped e (trace s) ba')" if "\<not> added"
    unfolding fwd using that tr by (simp add: forwardLocked_plain)
  from t1 t2 t3 t4 t5 show ?thesis by blast
qed

theorem SendLocked_injects_BeginTransaction_witness:
  "finalErr example_system = None \<and> needBeginTxn example_system
   \<and> example_isWrite (example_Put 1) \<and> \<not> example_isWrite (example_Get 3)
   \<and> \<not> stopper_quiescing example_system \<and> eagerRecord example_system
   \<and> trace (snd (SendLocked
        (example_env (Some \<lparr>Responses = Some [BeginTransactionResponse, OtherResponse ''Put'',
                                               OtherResponse ''Put'']\<rparr>, None) (None, None))
        \<lparr>Txn = Some (txn example_system), Requests = [example_Put 1, example_Put 2]\<rparr>
        example_system))
     = [SentWrapped \<lparr>Txn = Some \<lparr>Key = Some [1], Status = PENDING, Writing = True\<rparr>,
                     Requests = [BeginTransactionRequest (Some [1]), example_Put 1, example_Put 2]\<rparr>]
   \<and> fst (SendLocked
        (example_env (Some \<lparr>Responses = Some [BeginTransactionResponse, OtherResponse ''Put'',
                                               OtherResponse ''Put'']\<rparr>, None) (None, None))
        \<lparr>Txn = Some (txn example_system), Requests = [example_Put 1, example_Put 2]\<rparr>
        example_system)
     = Inr (Some \<lparr>Responses = Some [OtherResponse ''Put'', OtherResponse ''Put'']\<rparr>, None)
   \<and> trace (snd (SendLocked
        (example_env (Some \<lparr>Responses = Some [OtherResponse ''Get'', OtherResponse ''Put'']\<rparr>, None)
           (None, None))
        \<lparr>Txn = Some (txn example_system), Requests = [example_Get 3, example_Put 1]\<rparr>
        (example_system\<lparr>eagerRecord := False\<rparr>)))
     = [SentWrapped \<lparr>Txn = Some \<lparr>Key = Some [1], Status = PENDING, Writing = True\<rparr>,
                     Requests = [example_Get 3, example_Put 1]\<rparr>]
   \<and> fst (SendLocked
        (example_env (Some \<lparr>Responses = Some [OtherResponse ''Get'', OtherResponse ''Put'']\<rparr>, None)
           (None, None))
        \<lparr>Txn = Some (txn example_system), Requests = [example_Get 3, example_Put 1]\<rparr>
        (example_system\<lparr>eagerRecord := False\<rparr>))
     = Inr (Some \<lparr>Responses = Some [OtherResponse ''Get'', OtherResponse ''Put'']\<rparr>, None)"
proof -
  let ?e = "example_env (Some \<lparr>Responses = Some [BeginTransactionResponse, OtherResponse ''Put'',
                                               OtherResponse ''Put'']\<rparr>, None) (None, None)"
  let ?ba = "\<lparr>Txn = Some (txn example_system), Requests = [example_Put 1, example_Put 2]\<rparr>"
  let ?ba' = "\<lparr>Txn = Some \<lparr>Key = Some [1], Status = PENDING, Writing = True\<rparr>,
               Requests = [BeginTransactionRequest (Some [1]), example_Put 1, example_Put 2]\<rparr>"
  let ?l = "example_system\<lparr>eagerRecord := False\<rparr>"
  let ?el = "example_env (Some \<lparr>Responses = Some [OtherResponse ''Get'', OtherResponse ''Put'']\<rparr>,
                          None) (None, None)"
  let ?bl = "\<lparr>Txn = Some (txn example_system), Requests = [example_Get 3, example_Put 1]\<rparr>"
  let ?bl' = "\<lparr>Txn = Some \<lparr>Key = Some [1], Status = PENDING, Writing = True\<rparr>,
               Requests = [example_Get 3, example_Put 1]\<rparr>"
  have h1: "finalErr example_system = None" and h2: "needBeginTxn example_system"
    and h8: "\<not> (txnEnd example_system = None \<and> \<not> GetArg_EndTransaction ?ba
                \<and> stopper_quiescing example_system)"
    and h10: "True = (eagerRecord example_system \<or> \<not> lazyTxnRecordActive example_system)"
    by (simp_all add: example_system_def)
  have h3: "Requests ?ba = [] @ example_Put 1 # [example_Put 2]" by simp
  have h4: "\<forall>r\<in>set []. \<not> IsTransactionWrite ?e r" by simp
  have h5: "IsTransactionWrite ?e (example_Put 1)"
    by (simp add: example_defs)
  have h6: "\<forall>r\<in>set (butlast (Requests ?ba)). \<not> is_EndTransactionRequest r"
    by (simp add: example_Put_def)
  have h7: "Txn ?ba = Some (txn example_system)" by simp
  have h9: "Some [1] = (if len_Key (Key (txn example_system)) = 0
                         then Header_Key (example_Put 1) else Key (txn example_system))"
    by (simp add: example_defs)
  have h11: "?ba' = \<lparr>Txn = Some ((txn example_system)\<lparr>Writing := True,
                 Key := (if len_Key (Key (txn example_system)) = 0 then Some [1]
                         else Key (txn example_system))\<rparr>),
               Requests = (if True
                           then [] @ BeginTransactionRequest (Some [1]) # example_Put 1
                                  # [example_Put 2]
                           else [] @ example_Put 1 # [example_Put 2])\<rparr>"
    by (simp add: example_defs)
  note th = SendLocked_injects_BeginTransaction [OF h1 h2 h3 h4 h5 h6 h7 h8 h9 h10 h11]
  have w: "wrapped ?e (trace example_system) ?ba' =
             (Some \<lparr>Responses = Some [BeginTransactionResponse, OtherResponse ''Put'',
                                       OtherResponse ''Put'']\<rparr>, None)"
    by (simp add: example_env_def)
  from th have c1: "trace (snd (SendLocked ?e ?ba example_system)) = [SentWrapped ?ba']"
    by (simp add: example_system_def)
  from th w have c2: "fst (SendLocked ?e ?ba example_system)
       = Inr (Some \<lparr>Responses = Some [OtherResponse ''Put'', OtherResponse ''Put'']\<rparr>, None)"
    by (simp add: adjustErrorIndex_def)
  have l1: "finalErr ?l = None" and l2: "needBeginTxn ?l"
    and l8: "\<not> (txnEnd ?l = None \<and> \<not> GetArg_EndTransaction ?bl \<and> stopper_quiescing ?l)"
    and l10: "False = (eagerRecord ?l \<or> \<not> lazyTxnRecordActive ?l)"
    by (simp_all add: example_system_def)
  have l3: "Requests ?bl = [example_Get 3] @ example_Put 1 # []" by simp
  have l4: "\<forall>r\<in>set [example_Get 3]. \<not> IsTransactionWrite ?el r"
    by (simp add: example_defs)
  have l5: "IsTransactionWrite ?el (example_Put 1)"
    by (simp add: example_defs)
  have l6: "\<forall>r\<in>set (butlast (Requests ?bl)). \<not> is_EndTransactionRequest r"
    by (simp add: example_Get_def)
  have l7: "Txn ?bl = Some (txn example_system)" by simp
  have l9: "Some [1] = (if len_Key (Key (txn ?l)) = 0
                         then Header_Key (example_Put 1) else Key (txn ?l))"
    by (simp add: example_defs)
  have l11: "?bl' = \<lparr>Txn = Some ((txn example_system)\<lparr>Writing := True,
                 Key := (if len_Key (Key (txn ?l)) = 0 then Some [1]
                         else Key (txn example_system))\<rparr>),
               Requests = (if False
                           then [example_Get 3] @ BeginTransactionRequest (Some [1])
                                  # example_Put 1 # []
                           else [example_Get 3] @ example_Put 1 # [])\<rparr>"
    by (simp add: example_defs)
  note tl = SendLocked_injects_BeginTransaction [OF l1 l2 l3 l4 l5 l6 l7 l8 l9 l10 l11]
  from tl have d1: "trace (snd (SendLocked ?el ?bl ?l)) = [SentWrapped ?bl']"
    by (simp add: example_system_def)
  from tl have d2: "fst (SendLocked ?el ?bl ?l)
       = Inr (Some \<lparr>Responses = Some [OtherResponse ''Get'', OtherResponse ''Put'']\<rparr>, None)"
    by (simp add: example_env_def example_system_def)
  from h1 h2 h5 c1 c2 d1 d2 show ?thesis
    by (simp add: example_defs)
qed

text \<open>
  C3 as stated does not hold when \<open>eagerRecord\<close> is unset and the lazy transaction
  record is active: the batch with the single write is forwarded with its one request,
  and no begin-transaction request is added.
\<close>

theorem SendLocked_lazy_record_no_marker:
  "SendLocked (example_env (Some \<lparr>Responses = Some [OtherResponse ''Put'']\<rparr>, None) (None, None))
      \<lparr>Txn = Some (txn example_system), Requests = [example_Put 1]\<rparr>
      (example_system\<lparr>eagerRecord := False\<rparr>)
   = (Inr (Some \<lparr>Responses = Some [OtherResponse ''Put'']\<rparr>, None),
      example_system
        \<lparr>eagerRecord := False, needBeginTxn := False,
         txn := \<lparr>Key = Some [1], Status = PENDING, Writing = True\<rparr>,
         txnEnd := Some 0, chans_made := 1, stopper_tasks := [HeartbeatLoopTask],
         trace := [SentWrapped \<lparr>Txn = Some \<lparr>Key = Some [1], Status = PENDING, Writing = True\<rparr>,
                                Requests = [example_Put 1]\<rparr>]\<rparr>)"
  by (simp add: SendLocked_def firstWriteIndex_def beginTxnLocked_def forwardLocked_def
      startHeartbeatLoopLocked_def RunAsyncTask_def GetArg_EndTransaction_def Let_def
      example_system_def example_env_def example_isWrite_def example_Put_def len_Key_def)

text \<open>
  C4. In the situation of C3, where a begin-transaction request has been injected at the
  position \<open>length pre\<close> of the first write, let the wrapped sender return an error
  with index \<open>idx\<close> (with a response, if any, that has a slot for the injected
  request, so that stripping it does not panic). The error returned has no index if
  \<open>idx\<close> is the position of the injected request, the index \<open>idx - 1\<close> if \<open>idx\<close> is
  greater, and \<open>idx\<close> itself if it is smaller. The index is an int32 and the position
  is converted to one; the subtraction does not wrap, and for positions below \<open>2^31\<close>
  the comparisons are those of the integers.
\<close>

theorem SendLocked_adjusts_error_index:
  assumes "finalErr s = None" and "needBeginTxn s"
    and "Requests ba = pre @ wr # post"
    and "\<forall>r\<in>set pre. \<not> IsTransactionWrite e r \<and> \<not> is_EndTransactionRequest r"
    and "IsTransactionWrite e wr"
    and "is_EndTransactionRequest wr \<longrightarrow> post = []"
    and "Txn ba = Some t"
    and "\<not> (txnEnd s = None \<and> \<not> GetArg_EndTransaction ba \<and> stopper_quiescing s)"
    and "eagerRecord s \<or> \<not> lazyTxnRecordActive s"
    and "anchor = (if len_Key (Key (txn s)) = 0 then Header_Key wr else Key (txn s))"
    and "ba' = \<lparr>Txn = Some (t\<lparr>Writing := True,
                               Key := (if len_Key (Key (txn s)) = 0 then anchor else Key t)\<rparr>),
                Requests = pre @ BeginTransactionRequest anchor # wr # post\<rparr>"
    and "wrapped e (trace s) ba' = (br, Some err)"
    and "Index err = Some idx"
    and "stripBeginTxnResponse (length pre) br = Inr br'"
  shows "fst (SendLocked e ba s) =
            Inr (br', Some (err\<lparr>Index :=
                   (if idx = word_of_int (int (length pre)) then None
                    else if word_of_int (int (length pre)) <s idx then Some (idx - 1)
                    else Some idx)\<rparr>))
       \<and> (word_of_int (int (length pre)) <s idx \<longrightarrow> sint (idx - 1) = sint idx - 1)
       \<and> (length pre < 2 ^ 31 \<longrightarrow>
            (idx = word_of_int (int (length pre))) = (sint idx = int (length pre))
            \<and> (word_of_int (int (length pre)) <s idx) = (int (length pre) < sint idx))"
proof -
  let ?s1 = "s\<lparr>needBeginTxn := False, txn := (txn s)\<lparr>Writing := True, Key := anchor\<rparr>\<rparr>"
  let ?s2 = "if txnEnd s = None \<and> \<not> GetArg_EndTransaction ba
             then ?s1\<lparr>txnEnd := Some (chans_made s), chans_made := Suc (chans_made s),
                      stopper_tasks := stopper_tasks s @ [HeartbeatLoopTask]\<rparr>
             else ?s1"
  have ba': "ba' = \<lparr>Txn = Some (t\<lparr>Writing := True,
                               Key := (if len_Key (Key (txn s)) = 0 then anchor else Key t)\<rparr>),
                Requests = (if eagerRecord s \<or> \<not> lazyTxnRecordActive s
                            then pre @ BeginTransactionRequest anchor # wr # post
                            else pre @ wr # post)\<rparr>"
    using assms(9,11) by simp
  have fwd: "SendLocked e ba s = forwardLocked e True (int (length pre)) ba' ?s2"
    using SendLocked_marker_forward [OF assms(1-8) assms(10) ba' refl refl] assms(9) by simp
  have tr: "trace ?s2 = trace s" by simp
  note strip = assms(14)
  have same: "err\<lparr>Index := Some idx\<rparr> = err" using assms(13) by simp
  have adj: "adjustErrorIndex (int (length pre)) (Some err) =
          Some (err\<lparr>Index :=
                   (if idx = word_of_int (int (length pre)) then None
                    else if word_of_int (int (length pre)) <s idx then Some (idx - 1)
                    else Some idx)\<rparr>)"
    using assms(13) same by (simp add: adjustErrorIndex_def)
  have "fst (SendLocked e ba s) = Inr (br', adjustErrorIndex (int (length pre)) (Some err))"
    unfolding fwd using assms(12) tr strip by (simp add: forwardLocked_def Let_def)
  then have c1: "fst (SendLocked e ba s) =
            Inr (br', Some (err\<lparr>Index :=
                   (if idx = word_of_int (int (length pre)) then None
                    else if word_of_int (int (length pre)) <s idx then Some (idx - 1)
                    else Some idx)\<rparr>))"
    unfolding adj .
  have c2: "word_of_int (int (length pre)) <s idx \<longrightarrow> sint (idx - 1) = sint idx - 1"
    using int32_pred by blast
  have c3: "length pre < 2 ^ 31 \<longrightarrow>
            (idx = word_of_int (int (length pre))) = (sint idx = int (length pre))
            \<and> (word_of_int (int (length pre)) <s idx) = (int (length pre) < sint idx)"
    using int32_pos_eq by blast
  from c1 c2 c3 show ?thesis by blast
qed

theorem SendLocked_adjusts_error_index_witness:
  "finalErr example_system = None \<and> needBeginTxn example_system
   \<and> eagerRecord example_system \<and> \<not> stopper_quiescing example_system
   \<and> example_isWrite (example_Put 1) \<and> \<not> example_isWrite (example_Get 3)
   \<and> fst (SendLocked (example_env (None, Some (example_error (OtherErrorDetail ''x'')\<lparr>Index := Some 0\<rparr>)) (None, None))
        \<lparr>Txn = Some (txn example_system), Requests = [example_Get 3, example_Put 1, example_Put 2]\<rparr>
        example_system)
     = Inr (None, Some (example_error (OtherErrorDetail ''x'')\<lparr>Index := Some 0\<rparr>))
   \<and> fst (SendLocked (example_env (None, Some (example_error (OtherErrorDetail ''x'')\<lparr>Index := Some 1\<rparr>)) (None, None))
        \<lparr>Txn = Some (txn example_system), Requests = [example_Get 3, example_Put 1, example_Put 2]\<rparr>
        example_system)
     = Inr (None, Some (example_error (OtherErrorDetail ''x'')\<lparr>Index := None\<rparr>))
   \<and> fst (SendLocked (example_env (None, Some (example_error (OtherErrorDetail ''x'')\<lparr>Index := Some 3\<rparr>)) (None, None))
        \<lparr>Txn = Some (txn example_system), Requests = [example_Get 3, example_Put 1, example_Put 2]\<rparr>
        example_system)
     = Inr (None, Some (example_error (OtherErrorDetail ''x'')\<lparr>Index := Some 2\<rparr>))"
proof -
  let ?err = "\<lambda>idx. example_error (OtherErrorDetail ''x'')\<lparr>Index := Some idx\<rparr>"
  let ?e = "\<lambda>idx. example_env (None, Some (?err idx)) (None, None)"
  let ?ba = "\<lparr>Txn = Some (txn example_system),
              Requests = [example_Get 3, example_Put 1, example_Put 2]\<rparr>"
  let ?ba' = "\<lparr>Txn = Some \<lparr>Key = Some [1], Status = PENDING, Writing = True\<rparr>,
               Requests = [example_Get 3, BeginTransactionRequest (Some [1]),
                           example_Put 1, example_Put 2]\<rparr>"
  have h1: "finalErr example_system = None" and h2: "needBeginTxn example_system"
    and h8: "\<not> (txnEnd example_system = None \<and> \<not> GetArg_EndTransaction ?ba
                \<and> stopper_quiescing example_system)"
    and h9: "eagerRecord example_system \<or> \<not> lazyTxnRecordActive example_system"
    by (simp_all add: example_system_def)
  have h3: "Requests ?ba = [example_Get 3] @ example_Put 1 # [example_Put 2]" by simp
  have h4: "\<forall>r\<in>set [example_Get 3].
              \<not> IsTransactionWrite (?e idx) r \<and> \<not> is_EndTransactionRequest r" for idx
    by (simp add: example_defs)
  have h5: "IsTransactionWrite (?e idx) (example_Put 1)" for idx
    by (simp add: example_defs)
  have h6: "is_EndTransactionRequest (example_Put 1) \<longrightarrow> [example_Put 2] = []"
    by (simp add: example_Put_def)
  have h7: "Txn ?ba = Some (txn example_system)" by simp
  have h10: "Some [1] = (if len_Key (Key (txn example_system)) = 0
                         then Header_Key (example_Put 1) else Key (txn example_system))"
    by (simp add: example_defs)
  have h11: "?ba' = \<lparr>Txn = Some ((txn example_system)\<lparr>Writing := True,
                 Key := (if len_Key (Key (txn example_system)) = 0 then Some [1]
                         else Key (txn example_system))\<rparr>),
               Requests = [example_Get 3] @ BeginTransactionRequest (Some [1])
                            # example_Put 1 # [example_Put 2]\<rparr>"
    by (simp add: example_defs)
  have h12: "wrapped (?e idx) (trace example_system) ?ba' = (None, Some (?err idx))" for idx
    by (simp add: example_env_def)
  have h13: "Index (?err idx) = Some idx" for idx by simp
  have h14: "stripBeginTxnResponse (length [example_Get 3]) None = Inr None"
    by (simp add: stripBeginTxnResponse_def)
  note th = SendLocked_adjusts_error_index
              [OF h1 h2 h3 h4 h5 h6 h7 h8 h9 h10 h11 h12 h13 h14, THEN conjunct1]
  have c0: "fst (SendLocked (?e 0) ?ba example_system) = Inr (None, Some (?err 0))"
    using th [of 0] by (simp add: example_error_def word_sless_alt)
  have c1: "fst (SendLocked (?e 1) ?ba example_system)
              = Inr (None, Some (example_error (OtherErrorDetail ''x'')\<lparr>Index := None\<rparr>))"
    using th [of 1] by (simp add: example_error_def word_sless_alt)
  have c3: "fst (SendLocked (?e 3) ?ba example_system) = Inr (None, Some (?err 2))"
    using th [of 3] by (simp add: example_error_def word_sless_alt)
  from h1 h2 c0 c1 c3 show ?thesis
    by (simp add: example_defs)
qed

subsection \<open>Starting the heartbeat loop\<close>



subsection \<open>One begin-transaction request per epoch\<close>

text \<open>
  C7. A call of \<open>SendLocked\<close> that reaches a transactional write with \<open>needBeginTxn\<close>
  set leaves \<open>needBeginTxn\<close> unset. From then on, whatever calls of \<open>SendLocked\<close>,
  \<open>heartbeat\<close> and \<open>closeLocked\<close> follow, as long as the epoch is not bumped,
  \<open>needBeginTxn\<close> stays unset and every batch that the wrapped sender receives is
  one of the batches passed to \<open>SendLocked\<close>, as it was passed: no begin-transaction
  request is injected, whatever the batches write.
\<close>

theorem needBeginTxn_cleared_for_epoch:
  assumes "finalErr s = None \<or> singleRollback ba"
    and "firstWriteIndex (IsTransactionWrite e) ba = Inr i" and "i \<noteq> - 1"
    and "needBeginTxn s"
    and "s1 = snd (SendLocked e ba s)"
    and "CallEpochBumpedLocked \<notin> set cs"
    and "s2 = snd (run_calls e cs s1)"
  shows "\<not> needBeginTxn s1 \<and> \<not> needBeginTxn s2
       \<and> (\<exists>sent. trace s2 = trace s1 @ sent
                  \<and> (\<forall>b. SentWrapped b \<in> set sent \<longrightarrow> CallSendLocked b \<in> set cs))"
proof -
  have "SendLocked e ba s = beginTxnLocked e i (GetArg_EndTransaction ba) ba s"
    using assms(1-4) by (rule SendLocked_qualifying)
  then have n1: "\<not> needBeginTxn s1"
    using assms(5) beginTxnLocked_clears_needBeginTxn by simp
  from run_calls_same_epoch [OF n1 assms(6), of e] assms(7) n1 show ?thesis by simp
qed

theorem needBeginTxn_cleared_for_epoch_witness:
  "finalErr example_system = None \<and> needBeginTxn example_system
   \<and> firstWriteIndex example_isWrite
        \<lparr>Txn = Some (txn example_system), Requests = [example_Put 1]\<rparr> = Inr 0
   \<and> \<not> needBeginTxn (snd (SendLocked (example_env (None, None) (None, None))
        \<lparr>Txn = Some (txn example_system), Requests = [example_Put 1]\<rparr> example_system))
   \<and> \<not> needBeginTxn (snd (run_calls (example_env (None, None) (None, None))
        [CallSendLocked \<lparr>Txn = Some (txn example_system), Requests = [example_Put 2]\<rparr>,
         CallHeartbeat,
         CallSendLocked \<lparr>Txn = Some (txn example_system), Requests = [example_Put 3]\<rparr>]
        (snd (SendLocked (example_env (None, None) (None, None))
           \<lparr>Txn = Some (txn example_system), Requests = [example_Put 1]\<rparr> example_system))))"
proof -
  let ?e = "example_env (None, None) (None, None)"
  let ?ba = "\<lparr>Txn = Some (txn example_system), Requests = [example_Put 1]\<rparr>"
  let ?cs = "[CallSendLocked \<lparr>Txn = Some (txn example_system), Requests = [example_Put 2]\<rparr>,
         CallHeartbeat,
         CallSendLocked \<lparr>Txn = Some (txn example_system), Requests = [example_Put 3]\<rparr>]"
  have fw: "firstWriteIndex example_isWrite ?ba = Inr 0"
    by (simp add: firstWriteIndex_def example_defs)
  then have fwe: "firstWriteIndex (IsTransactionWrite ?e) ?ba = Inr 0"
    by (simp add: example_env_def)
  have h: "finalErr example_system = None" "needBeginTxn example_system"
    by (simp_all add: example_system_def)
  have a: "finalErr example_system = None \<or> singleRollback ?ba" using h by simp
  have z: "(0::int) \<noteq> - 1" by simp
  have ne: "CallEpochBumpedLocked \<notin> set ?cs" by simp
  note th = needBeginTxn_cleared_for_epoch [OF a fwe z h(2) refl ne refl]
  from th fw h show ?thesis by simp
qed

text \<open>Two writing batches in a row on the example: only the first one gets the request.\<close>

lemma needBeginTxn_history_trace:
  "trace (snd (run_calls (example_env (None, None) (None, None))
        [CallSendLocked \<lparr>Txn = Some (txn example_system), Requests = [example_Put 1]\<rparr>,
         CallSendLocked \<lparr>Txn = Some (txn example_system), Requests = [example_Put 2]\<rparr>]
        example_system))
   = [SentWrapped \<lparr>Txn = Some \<lparr>Key = Some [1], Status = PENDING, Writing = True\<rparr>,
                   Requests = [BeginTransactionRequest (Some [1]), example_Put 1]\<rparr>,
      SentWrapped \<lparr>Txn = Some (txn example_system), Requests = [example_Put 2]\<rparr>]"
  by (simp add: SendLocked_def firstWriteIndex_def beginTxnLocked_def forwardLocked_def
      startHeartbeatLoopLocked_def RunAsyncTask_def GetArg_EndTransaction_def Let_def
      stripBeginTxnResponse_def adjustErrorIndex_def injectBeginTxn_def
      example_system_def example_env_def example_isWrite_def example_Put_def len_Key_def)

subsection \<open>The epoch-bump hook\<close>

text \<open>
  C10. The epoch-bump hook sets \<open>needBeginTxn\<close> whatever its value was and changes
  nothing else: \<open>finalErr\<close>, the channel \<open>txnEnd\<close> that marks an active loop, the
  transaction record and every other field are those of the state before the call.
\<close>

theorem epochBumpedLocked_frame:
  "needBeginTxn (epochBumpedLocked s) = True
   \<and> finalErr (epochBumpedLocked s) = finalErr s
   \<and> txnEnd (epochBumpedLocked s) = txnEnd s
   \<and> txn (epochBumpedLocked s) = txn s
   \<and> epochBumpedLocked s = s\<lparr>needBeginTxn := True\<rparr>"
  by (simp add: epochBumpedLocked_def)

end
